theory Spec2Isabelle
  imports Complex_Main "HOL-Library.AList"
begin

section \<open>Values of the royalty document\<close>

text \<open>
  \<^verbatim>\<open>json.load\<close> yields Python values: \<^verbatim>\<open>None\<close>, booleans, numbers, strings, lists and
  dicts. A dict keeps its keys in insertion order and holds each key once; it is an
  association list here, read with \<open>map_of\<close> and written with \<open>AList.update\<close> (which
  overwrites in place or appends, as a Python dict does). Numbers are only tested for
  truth by the code below, so one constructor carries them all.

  A Python string is a sequence of Unicode characters; here it is the \<open>char list\<close> of
  its UTF-8 bytes, so that equal strings are equal lists, a prefix is a prefix, and the
  ASCII characters are the bytes below 128. The two status marks of the checklist, which
  are not ASCII, are written as their bytes.
\<close>

datatype json =
    JNull
  | JBool bool
  | JNum rat
  | JStr string
  | JList "json list"
  | JDict "(string \<times> json) list"

type_synonym pydict = "(string \<times> json) list"

datatype py_error = KeyError | TypeError | AttributeError | OtherError

fun is_dict :: "json \<Rightarrow> bool" where
  "is_dict (JDict d) = True"
| "is_dict v = False"

text \<open>Python's truth value of an object, as \<^verbatim>\<open>if x:\<close> and \<^verbatim>\<open>not x\<close> test it.\<close>

fun truthy :: "json \<Rightarrow> bool" where
  "truthy JNull = False"
| "truthy (JBool b) = b"
| "truthy (JNum q) = (q \<noteq> 0)"
| "truthy (JStr s) = (s \<noteq> [])"
| "truthy (JList xs) = (xs \<noteq> [])"
| "truthy (JDict d) = (d \<noteq> [])"

definition bind_err :: "'e + 'a \<Rightarrow> ('a \<Rightarrow> 'e + 'b) \<Rightarrow> 'e + 'b" where
  "bind_err m f = (case m of Inl e \<Rightarrow> Inl e | Inr x \<Rightarrow> f x)"

text \<open>\<^verbatim>\<open>x[k]\<close> with a string key: KeyError on a dict without the key, TypeError on
  anything that is not a dict.\<close>

definition py_index :: "json \<Rightarrow> string \<Rightarrow> py_error + json" where
  "py_index x k =
     (case x of
        JDict d \<Rightarrow> (case map_of d k of None \<Rightarrow> Inl KeyError | Some v \<Rightarrow> Inr v)
      | _ \<Rightarrow> Inl TypeError)"

text \<open>\<^verbatim>\<open>x.get(k, default)\<close>: only a dict has the method.\<close>

definition py_get :: "json \<Rightarrow> string \<Rightarrow> json \<Rightarrow> py_error + json" where
  "py_get x k dflt =
     (case x of
        JDict d \<Rightarrow> (case map_of d k of None \<Rightarrow> Inr dflt | Some v \<Rightarrow> Inr v)
      | _ \<Rightarrow> Inl AttributeError)"

subsection \<open>String helpers\<close>

text \<open>
  Two methods of \<^verbatim>\<open>str\<close> that the program calls depend on the Unicode character
  tables of the Python interpreter, which are no part of the program. They are a
  parameter of the model: the record \<open>U\<close> gives the result of \<^verbatim>\<open>str.lower\<close> and of
  \<^verbatim>\<open>str.strip\<close> on every text that has a character beyond ASCII. Every function that
  calls one of the two methods takes \<open>U\<close> as its first argument, and a property stated
  for \<open>U\<close> holds whatever the tables are.
\<close>

record unicode_tables =
  lower_beyond_ascii :: "string \<Rightarrow> string"
  strip_beyond_ascii :: "string \<Rightarrow> string"

definition is_ascii :: "string \<Rightarrow> bool" where
  "is_ascii s = list_all (\<lambda>c. (of_char c :: nat) < 128) s"

definition lower_char :: "char \<Rightarrow> char" where
  "lower_char c =
     (let n = (of_char c :: nat) in if 65 \<le> n \<and> n \<le> 90 then char_of (n + 32) else c)"

text \<open>
  \<^verbatim>\<open>str.lower\<close>. On ASCII text it changes the letters A to Z and nothing else. What it
  does to text with other characters is decided by the interpreter's Unicode tables,
  taken from \<open>U\<close>.
\<close>

definition lower :: "unicode_tables \<Rightarrow> string \<Rightarrow> string" where
  "lower U s = (if is_ascii s then map lower_char s else lower_beyond_ascii U s)"

definition is_space :: "char \<Rightarrow> bool" where
  "is_space c = (let n = (of_char c :: nat) in (9 \<le> n \<and> n \<le> 13) \<or> (28 \<le> n \<and> n \<le> 32))"

text \<open>
  \<^verbatim>\<open>str.strip\<close> without argument. On ASCII text it removes the white space at both
  ends, which is the characters 9 to 13, 28 to 31 and the blank 32. Which other
  characters are white space is decided by the Unicode tables, taken from \<open>U\<close>.
\<close>

definition strip :: "unicode_tables \<Rightarrow> string \<Rightarrow> string" where
  "strip U s =
     (if is_ascii s then rev (dropWhile is_space (rev (dropWhile is_space s)))
      else strip_beyond_ascii U s)"

definition replace_space :: "string \<Rightarrow> string" where
  "replace_space s = map (\<lambda>c. if c = CHR '' '' then CHR ''_'' else c) s"

definition startswith :: "string \<Rightarrow> string \<Rightarrow> bool" where
  "startswith s p = (take (length p) s = p)"

text \<open>The cross mark U+274C and the check mark U+2705, in UTF-8.\<close>

definition cross_mark :: string where
  "cross_mark = [CHR 0xE2, CHR 0x9D, CHR 0x8C]"

definition check_mark :: string where
  "check_mark = [CHR 0xE2, CHR 0x9C, CHR 0x85]"

section \<open>Loading the document\<close>

text \<open>
  \<^verbatim>\<open>load_json\<close> opens \<^verbatim>\<open>royalties.json\<close> and parses it. What the file system and the
  parser do is the input of the model: the file is missing, its text is not JSON, some
  other exception is raised (which no handler of \<^verbatim>\<open>load_json\<close> catches), or a value
  was parsed. The result is the list of messages passed to \<^verbatim>\<open>st.error\<close> and the dataset.
  The decorator \<^verbatim>\<open>st.cache_data\<close> only keeps the result of the call for later runs of the
  page.
\<close>

datatype file_read = FileNotFoundError | JSONDecodeError | OtherException | Parsed json

definition load_json :: "file_read \<Rightarrow> py_error + (string list \<times> pydict)" where
  "load_json r =
     (case r of
        Parsed data \<Rightarrow>
          (case data of
             JDict d \<Rightarrow> Inr ([], d)
           | _ \<Rightarrow> Inr ([''Invalid JSON structure: Expected a dictionary at the root.''], []))
      | FileNotFoundError \<Rightarrow>
          Inr ([''Error: royalties.json file not found. Ensure it's in the correct directory.''], [])
      | JSONDecodeError \<Rightarrow>
          Inr ([''Error: royalties.json contains invalid JSON formatting.''], [])
      | OtherException \<Rightarrow> Inl OtherError)"

section \<open>Friendly labels\<close>

definition friendly_mapping :: "(string \<times> string) list" where
  "friendly_mapping =
    [(''interactive_dsp'', ''Interactive DSP''),
     (''traditional_digital'', ''Traditional Digital''),
     (''non_interactive_services'', ''Non-Interactive Services''),
     (''digital_downloads'', ''Digital Downloads''),
     (''ugc'', ''User-Generated Content''),
     (''non_digital'', ''Non-Digital''),
     (''artist_label'', ''Artist/Label''),
     (''writer_publisher'', ''Writer/Publisher''),
     (''us'', ''US''),
     (''international'', ''International''),
     (''recording_revenues'', ''Recording Revenues''),
     (''neighboring_rights'', ''Neighboring Rights''),
     (''performance'', ''Performance Rights''),
     (''mechanical'', ''Mechanical Rights''),
     (''sync_fees'', ''Sync Fees''),
     (''broadcast_radio_tv'', ''Broadcast Radio & TV''),
     (''restaurants_bars_venues'', ''Restaurants, Bars & Venues''),
     (''live_performances'', ''Live Performances''),
     (''physical_sales'', ''Physical Sales''),
     (''organic'', ''Organic''),
     (''official_library'', ''Official Library''),
     (''youtube'', ''YouTube''),
     (''meta'', ''Meta''),
     (''tiktok'', ''TikTok''),
     (''snapchat'', ''Snapchat''),
     (''twitch'', ''Twitch'')]"

definition friendly_text :: "unicode_tables \<Rightarrow> string \<Rightarrow> string" where
  "friendly_text U key = (case map_of friendly_mapping (lower U key) of None \<Rightarrow> key | Some t \<Rightarrow> t)"

section \<open>The flow diagram\<close>

text \<open>
  The state of the loop of \<^verbatim>\<open>generate_flowchart\<close>: the nodes and edges of the
  \<^verbatim>\<open>DiGraph\<close> (a node or an edge added twice is there once) and the two dicts
  \<^verbatim>\<open>node_colors\<close> and \<^verbatim>\<open>node_positions\<close>. Coordinates are rationals: \<^verbatim>\<open>mid_y\<close> is the
  float quotient of an even integer by 2, which is exact.
\<close>

record fc_state =
  g_nodes :: "string list"
  g_edges :: "(string \<times> string) list"
  node_colors :: "(string \<times> string) list"
  node_positions :: "(string \<times> (rat \<times> rat)) list"

datatype fc_outcome = Skipped string | Drawn fc_state

definition add_node :: "string \<Rightarrow> fc_state \<Rightarrow> fc_state" where
  "add_node n st = (if n \<in> set (g_nodes st) then st else st\<lparr>g_nodes := g_nodes st @ [n]\<rparr>)"

definition add_edge :: "string \<Rightarrow> string \<Rightarrow> fc_state \<Rightarrow> fc_state" where
  "add_edge u v st =
     (let st' = add_node v (add_node u st)
      in if (u, v) \<in> set (g_edges st') then st' else st'\<lparr>g_edges := g_edges st' @ [(u, v)]\<rparr>)"

definition set_color :: "string \<Rightarrow> string \<Rightarrow> fc_state \<Rightarrow> fc_state" where
  "set_color n c st = st\<lparr>node_colors := AList.update n c (node_colors st)\<rparr>"

definition set_position :: "string \<Rightarrow> rat \<times> rat \<Rightarrow> fc_state \<Rightarrow> fc_state" where
  "set_position n p st = st\<lparr>node_positions := AList.update n p (node_positions st)\<rparr>"

definition x_offset :: rat where
  "x_offset = 2"

definition y_offset :: rat where
  "y_offset = 2"

definition source_color :: string where
  "source_color = ''lightblue''"

definition mid_y_of :: "nat \<Rightarrow> rat" where
  "mid_y_of num_rights = - ((of_nat num_rights - 1) * y_offset) / 2"

text \<open>\<^verbatim>\<open>details.get(k, "").strip()\<close>: a value that is not a string has no \<^verbatim>\<open>strip\<close>.\<close>

definition get_stripped :: "unicode_tables \<Rightarrow> pydict \<Rightarrow> string \<Rightarrow> py_error + string" where
  "get_stripped U details k =
     (case map_of details k of
        None \<Rightarrow> Inr (strip U [])
      | Some (JStr s) \<Rightarrow> Inr (strip U s)
      | Some _ \<Rightarrow> Inl AttributeError)"

text \<open>The part of the loop body after the not-applicable test (lines 117 to 133).\<close>

definition fc_chain :: "string \<Rightarrow> rat \<Rightarrow> rat \<Rightarrow> rat \<Rightarrow> string \<Rightarrow> string \<Rightarrow> fc_state \<Rightarrow> fc_state" where
  "fc_chain right right_x right_y mid_y collected_by payee st =
     (let collected_by_x = right_x + x_offset;
          payee_x = collected_by_x + x_offset;
          st1 = (if collected_by \<noteq> [] then
                   set_position collected_by (collected_by_x, right_y)
                     (set_color collected_by source_color
                       (add_edge right collected_by (add_node collected_by st)))
                 else st)
      in if payee \<noteq> [] then
           set_position payee (payee_x, mid_y)
             (set_color payee source_color
               ((if collected_by \<noteq> [] then add_edge collected_by payee else add_edge right payee)
                 (add_node payee st1)))
         else st1)"

text \<open>The part of the loop body that places the right itself (lines 107 to 112).\<close>

definition place_right :: "string \<Rightarrow> string \<Rightarrow> nat \<Rightarrow> bool \<Rightarrow> fc_state \<Rightarrow> fc_state" where
  "place_right source right i is_not_applicable st =
     (let right_x = x_offset;
          right_y = - of_nat i * y_offset
      in set_position right (right_x, right_y)
           (set_color right (if is_not_applicable then ''red'' else source_color)
             (add_edge source right (add_node right st))))"

text \<open>One iteration of the loop over \<^verbatim>\<open>enumerate(rights.items())\<close>.\<close>

definition fc_step :: "unicode_tables \<Rightarrow> string \<Rightarrow> string \<Rightarrow> rat \<Rightarrow> nat \<times> string \<times> json \<Rightarrow> fc_state \<Rightarrow> py_error + fc_state" where
  "fc_step U source role mid_y item st =
     (case item of (i, right, details) \<Rightarrow>
        (case details of
           JDict det \<Rightarrow>
             bind_err (get_stripped U det ''collected_by'') (\<lambda>collected_by.
             bind_err (get_stripped U det ''payee'') (\<lambda>payee0.
               let is_not_applicable = (map_of det ''fully_not_applicable'' \<noteq> None);
                   payee = (if payee0 = [] then role else payee0);
                   st1 = place_right source right i is_not_applicable st
               in if is_not_applicable then Inr st1
                  else Inr (fc_chain right x_offset (- of_nat i * y_offset) mid_y collected_by payee st1)))
         | _ \<Rightarrow> Inr st))"

fun fc_loop :: "unicode_tables \<Rightarrow> string \<Rightarrow> string \<Rightarrow> rat \<Rightarrow> (nat \<times> string \<times> json) list \<Rightarrow> fc_state \<Rightarrow> py_error + fc_state" where
  "fc_loop U source role mid_y [] st = Inr st"
| "fc_loop U source role mid_y (item # items) st =
     bind_err (fc_step U source role mid_y item st) (fc_loop U source role mid_y items)"

definition fc_init :: "string \<Rightarrow> rat \<Rightarrow> fc_state" where
  "fc_init source mid_y =
     set_position source (0, mid_y)
       (set_color source source_color
         (add_node source \<lparr>g_nodes = [], g_edges = [], node_colors = [], node_positions = []\<rparr>))"

definition missing_rights_message :: "unicode_tables \<Rightarrow> string \<Rightarrow> string \<Rightarrow> string \<Rightarrow> string" where
  "missing_rights_message U source region role =
     ''Unexpected or missing rights data for '' @ friendly_text U role @ '' in ''
       @ friendly_text U region @ '' for '' @ friendly_text U source @ ''. Skipping flowchart.''"

text \<open>
  \<^verbatim>\<open>generate_flowchart\<close> up to the graph it hands to the drawing library: either the
  message given to \<^verbatim>\<open>st.error\<close> and no graph, or the graph with its colours and positions.
  Wrapping the labels and drawing (lines 135 to 151) read the graph and change nothing
  in it.
\<close>

definition generate_flowchart :: "unicode_tables \<Rightarrow> string \<Rightarrow> string \<Rightarrow> string \<Rightarrow> json \<Rightarrow> py_error + fc_outcome" where
  "generate_flowchart U source region role rights =
     (case rights of
        JDict d \<Rightarrow>
          if d = [] then Inr (Skipped (missing_rights_message U source region role))
          else bind_err
                 (fc_loop U source role (mid_y_of (length d)) (enumerate 0 d)
                    (fc_init source (mid_y_of (length d))))
                 (\<lambda>st. Inr (Drawn st))
      | _ \<Rightarrow> Inr (Skipped (missing_rights_message U source region role)))"

section \<open>The selection path\<close>

text \<open>
  The page reads the rights of the current selection at module level (lines 273 to
  278). The dataset is the dict \<^verbatim>\<open>ROYALTY_DATA\<close>; the selectors are strings.
  \<open>source_node\<close> is \<^verbatim>\<open>ROYALTY_DATA[category][subcategory]\<close> and \<open>platform_node\<close> is
  \<^verbatim>\<open>ROYALTY_DATA[category][subcategory][platform]\<close>.
\<close>

definition source_node :: "pydict \<Rightarrow> string \<Rightarrow> string \<Rightarrow> py_error + json" where
  "source_node ROYALTY_DATA category subcategory =
     bind_err (py_index (JDict ROYALTY_DATA) category) (\<lambda>c. py_index c subcategory)"

definition platform_node :: "pydict \<Rightarrow> string \<Rightarrow> string \<Rightarrow> string \<Rightarrow> py_error + json" where
  "platform_node ROYALTY_DATA category subcategory platform =
     bind_err (source_node ROYALTY_DATA category subcategory) (\<lambda>s. py_index s platform)"

definition rights_lookup :: "unicode_tables \<Rightarrow> pydict \<Rightarrow> string \<Rightarrow> string \<Rightarrow> string \<Rightarrow> string \<Rightarrow> string \<Rightarrow> py_error + json" where
  "rights_lookup U ROYALTY_DATA category subcategory platform region role =
     (if lower U category = ''ugc'' then
        bind_err (platform_node ROYALTY_DATA category subcategory platform) (\<lambda>p.
        bind_err (py_index p region) (\<lambda>r.
          py_get r role (JDict [])))
      else
        bind_err (source_node ROYALTY_DATA category subcategory) (\<lambda>s.
        bind_err (py_index s region) (\<lambda>r.
          py_index r role)))"

text \<open>The page then draws the diagram for what it found (lines 275 and 278).\<close>

definition page_flowchart :: "unicode_tables \<Rightarrow> pydict \<Rightarrow> string \<Rightarrow> string \<Rightarrow> string \<Rightarrow> string \<Rightarrow> string \<Rightarrow> py_error + fc_outcome" where
  "page_flowchart U ROYALTY_DATA category subcategory platform region role =
     bind_err (rights_lookup U ROYALTY_DATA category subcategory platform region role)
       (generate_flowchart U subcategory region role)"

subsection \<open>The usage explainer\<close>

definition usage_key :: "unicode_tables \<Rightarrow> string \<Rightarrow> string \<Rightarrow> string" where
  "usage_key U region role =
     (if lower U region = ''us'' then ''us_usage_explainer_'' @ role
      else if lower U region = ''international'' then ''int_usage_explainer_'' @ role
      else lower U region @ ''_usage_explainer_'' @ role)"

definition no_usage_explainer :: json where
  "no_usage_explainer = JStr ''No usage explainer available.''"

definition usage_text :: "unicode_tables \<Rightarrow> pydict \<Rightarrow> string \<Rightarrow> string \<Rightarrow> string \<Rightarrow> string \<Rightarrow> string \<Rightarrow> py_error + json" where
  "usage_text U ROYALTY_DATA category subcategory platform region role =
     (if lower U category = ''ugc'' then
        bind_err (platform_node ROYALTY_DATA category subcategory platform) (\<lambda>p.
          py_get p (usage_key U region role) no_usage_explainer)
      else
        bind_err (source_node ROYALTY_DATA category subcategory) (\<lambda>s.
          py_get s (usage_key U region role) no_usage_explainer))"

section \<open>Rights details\<close>

text \<open>The entry dict that \<^verbatim>\<open>get_rights_data\<close> builds for each right.\<close>

record entry =
  Right :: string
  fully_not_applicable :: json
  Collected_By :: json
  How_Received :: json
  Est_Rate :: json
  How_its_Calculated :: json

definition get_or :: "pydict \<Rightarrow> string \<Rightarrow> json \<Rightarrow> json" where
  "get_or d k dflt = (case map_of d k of None \<Rightarrow> dflt | Some v \<Rightarrow> v)"

definition make_entry :: "string \<Rightarrow> pydict \<Rightarrow> entry" where
  "make_entry right_key right_info =
     \<lparr>Right = right_key,
      fully_not_applicable = get_or right_info ''fully_not_applicable'' JNull,
      Collected_By = get_or right_info ''collected_by'' (JStr []),
      How_Received = get_or right_info ''how_it_is_received'' (JStr []),
      Est_Rate = get_or right_info ''estimated_rate'' (JNum 0),
      How_its_Calculated = get_or right_info ''how_it_is_calculated'' (JStr [])\<rparr>"

text \<open>The inner loop, over the rights of one role; the state is the two lists.\<close>

fun collect_rights :: "string \<Rightarrow> pydict \<Rightarrow> entry list \<times> entry list \<Rightarrow> entry list \<times> entry list" where
  "collect_rights role_key [] acc = acc"
| "collect_rights role_key ((right_key, right_info) # rest) (master_list, publishing_list) =
     (case right_info of
        JDict info \<Rightarrow>
          collect_rights role_key rest
            (if role_key = ''artist_label'' then (master_list @ [make_entry right_key info], publishing_list)
             else if role_key = ''writer_publisher'' then (master_list, publishing_list @ [make_entry right_key info])
             else (master_list, publishing_list))
      | _ \<Rightarrow> collect_rights role_key rest (master_list, publishing_list))"

text \<open>The outer loop, over the roles of the region node.\<close>

fun collect_roles :: "pydict \<Rightarrow> entry list \<times> entry list \<Rightarrow> entry list \<times> entry list" where
  "collect_roles [] acc = acc"
| "collect_roles ((role_key, role_data) # rest) acc =
     (case role_data of
        JDict rd \<Rightarrow> collect_roles rest (collect_rights role_key rd acc)
      | _ \<Rightarrow> collect_roles rest acc)"

definition split_node :: "json \<Rightarrow> entry list \<times> entry list" where
  "split_node data_node = (case data_node of JDict dn \<Rightarrow> collect_roles dn ([], []) | _ \<Rightarrow> ([], []))"

definition get_rights_data :: "unicode_tables \<Rightarrow> pydict \<Rightarrow> string \<Rightarrow> string \<Rightarrow> string \<Rightarrow> string option \<Rightarrow> py_error + (entry list \<times> entry list)" where
  "get_rights_data U ROYALTY_DATA area usage_type location platform =
     (if lower U area = ''ugc'' then
        (case platform of
           None \<Rightarrow> Inr ([], [])
         | Some pf \<Rightarrow>
             if pf = [] then Inr ([], [])
             else
               bind_err (py_index (JDict ROYALTY_DATA) area) (\<lambda>a.
               bind_err (py_index a usage_type) (\<lambda>u.
               bind_err (py_get u pf (JDict [])) (\<lambda>p.
               bind_err (py_get p location (JDict [])) (\<lambda>data_node.
                 Inr (split_node data_node))))))
      else
        bind_err (py_get (JDict ROYALTY_DATA) area (JDict [])) (\<lambda>a.
        bind_err (py_get a usage_type (JDict [])) (\<lambda>u.
        bind_err (py_get u location (JDict [])) (\<lambda>data_node.
          Inr (split_node data_node)))))"

subsection \<open>The checklist\<close>

record data_frame =
  Rights :: "string list"
  Applicable :: "string list"

definition right_mapping :: "unicode_tables \<Rightarrow> (string \<times> string) list" where
  "right_mapping U =
    [(''recording_revenues'', friendly_text U ''recording_revenues''),
     (''neighboring_rights'', friendly_text U ''neighboring_rights''),
     (''performance'', friendly_text U ''performance''),
     (''mechanical'', friendly_text U ''mechanical''),
     (''sync_fees'', friendly_text U ''sync_fees'')]"

definition display_key :: "unicode_tables \<Rightarrow> entry \<Rightarrow> string" where
  "display_key U e =
     (let raw_key = replace_space (lower U (Right e))
      in case map_of (right_mapping U) raw_key of None \<Rightarrow> friendly_text U raw_key | Some t \<Rightarrow> t)"

text \<open>\<^verbatim>\<open>{r: cross for r in rights_of_interest}\<close>\<close>

fun initial_status :: "string list \<Rightarrow> (string \<times> string) list \<Rightarrow> (string \<times> string) list" where
  "initial_status [] acc = acc"
| "initial_status (r # rs) acc = initial_status rs (AList.update r cross_mark acc)"

text \<open>
  One iteration over \<^verbatim>\<open>data_list\<close>. \<^verbatim>\<open>entry["Collected By"].startswith\<close> is reached
  only for a true value, and only a string has the method.
\<close>

definition table_step :: "unicode_tables \<Rightarrow> entry \<Rightarrow> (string \<times> string) list \<Rightarrow> py_error + (string \<times> string) list" where
  "table_step U e rights_status =
     (if truthy (fully_not_applicable e) then Inr rights_status
      else if truthy (Collected_By e) then
        (case Collected_By e of
           JStr s \<Rightarrow>
             if \<not> startswith s cross_mark
             then Inr (AList.update (display_key U e) check_mark rights_status)
             else Inr rights_status
         | _ \<Rightarrow> Inl AttributeError)
      else Inr rights_status)"

fun table_loop :: "unicode_tables \<Rightarrow> entry list \<Rightarrow> (string \<times> string) list \<Rightarrow> py_error + (string \<times> string) list" where
  "table_loop U [] rights_status = Inr rights_status"
| "table_loop U (e # es) rights_status = bind_err (table_step U e rights_status) (table_loop U es)"

text \<open>\<^verbatim>\<open>[rights_status[r] for r in rights_of_interest]\<close>\<close>

fun status_column :: "(string \<times> string) list \<Rightarrow> string list \<Rightarrow> py_error + string list" where
  "status_column rights_status [] = Inr []"
| "status_column rights_status (r # rs) =
     (case map_of rights_status r of
        None \<Rightarrow> Inl KeyError
      | Some v \<Rightarrow> bind_err (status_column rights_status rs) (\<lambda>vs. Inr (v # vs)))"

definition create_rights_table :: "unicode_tables \<Rightarrow> entry list \<Rightarrow> string list \<Rightarrow> py_error + data_frame" where
  "create_rights_table U data_list rights_of_interest =
     bind_err (table_loop U data_list (initial_status rights_of_interest [])) (\<lambda>rights_status.
     bind_err (status_column rights_status rights_of_interest) (\<lambda>col.
       Inr \<lparr>Rights = rights_of_interest, Applicable = col\<rparr>))"

section \<open>Vocabulary for the properties\<close>

text \<open>
  Names for the conditions the code tests, so that the properties below can speak of
  them. A value is text when it is a string; a field of a right's details is a text field
  when it is absent or a string, which is when \<^verbatim>\<open>.get(k, "").strip()\<close> does not raise.
\<close>

definition is_text :: "json \<Rightarrow> bool" where
  "is_text v = (case v of JStr s \<Rightarrow> True | _ \<Rightarrow> False)"

definition text_field :: "pydict \<Rightarrow> string \<Rightarrow> bool" where
  "text_field details k = (case map_of details k of None \<Rightarrow> True | Some v \<Rightarrow> is_text v)"

definition stripped_field :: "unicode_tables \<Rightarrow> pydict \<Rightarrow> string \<Rightarrow> string" where
  "stripped_field U details k = (case map_of details k of Some (JStr s) \<Rightarrow> strip U s | _ \<Rightarrow> [])"

definition is_not_applicable :: "pydict \<Rightarrow> bool" where
  "is_not_applicable details = (map_of details ''fully_not_applicable'' \<noteq> None)"

text \<open>The label of the payee node of a right: lines 101, 104 and 105.\<close>

definition payee_label :: "unicode_tables \<Rightarrow> string \<Rightarrow> pydict \<Rightarrow> string" where
  "payee_label U role details =
     (if stripped_field U details ''payee'' = [] then role else stripped_field U details ''payee'')"

text \<open>The collector and payee nodes that the iteration for one right writes.\<close>

fun collector_labels :: "unicode_tables \<Rightarrow> json \<Rightarrow> string list" where
  "collector_labels U (JDict det) =
     (if is_not_applicable det \<or> stripped_field U det ''collected_by'' = [] then []
      else [stripped_field U det ''collected_by''])"
| "collector_labels U v = []"

fun payee_labels :: "unicode_tables \<Rightarrow> string \<Rightarrow> json \<Rightarrow> string list" where
  "payee_labels U role (JDict det) =
     (if is_not_applicable det \<or> payee_label U role det = [] then [] else [payee_label U role det])"
| "payee_labels U role v = []"

definition right_names :: "pydict \<Rightarrow> string list" where
  "right_names d = map fst (filter (\<lambda>(right, details). is_dict details) d)"

definition collector_names :: "unicode_tables \<Rightarrow> pydict \<Rightarrow> string list" where
  "collector_names U d = concat (map (\<lambda>(right, details). collector_labels U details) d)"

definition payee_names :: "unicode_tables \<Rightarrow> string \<Rightarrow> pydict \<Rightarrow> string list" where
  "payee_names U role d = concat (map (\<lambda>(right, details). payee_labels U role details) d)"

text \<open>
  An entry carries an explanation when its not-applicable value is a non-empty string,
  the form the data file gives the marker.
\<close>

definition has_explanation :: "entry \<Rightarrow> bool" where
  "has_explanation e = (case fully_not_applicable e of JStr t \<Rightarrow> t \<noteq> [] | _ \<Rightarrow> False)"

text \<open>
  An entry of the checklist's data list reaches the assignment of line 206 when its
  not-applicable value is false and its collector is a non-empty string that does not
  start with the cross mark.
\<close>

definition marks_present :: "entry \<Rightarrow> bool" where
  "marks_present e =
     (\<not> truthy (fully_not_applicable e)
      \<and> (case Collected_By e of JStr s \<Rightarrow> s \<noteq> [] \<and> \<not> startswith s cross_mark | _ \<Rightarrow> False))"

text \<open>
  The rights mapping is well typed when the collector and the payee of every right with
  dict details are absent or strings, as the data model has them.
\<close>

definition well_typed_rights :: "pydict \<Rightarrow> bool" where
  "well_typed_rights d =
     list_all (\<lambda>(right, details).
        case details of
          JDict det \<Rightarrow> text_field det ''collected_by'' \<and> text_field det ''payee''
        | _ \<Rightarrow> True) d"

section \<open>Sample documents\<close>

text \<open>
  The concrete instances below are evaluated with tables that leave every text beyond
  ASCII as it is. Their texts passed to \<^verbatim>\<open>str.lower\<close> and \<^verbatim>\<open>str.strip\<close> are ASCII, for
  which the tables are not consulted.
\<close>

definition plain_tables :: unicode_tables where
  "plain_tables = \<lparr>lower_beyond_ascii = (\<lambda>s. s), strip_beyond_ascii = (\<lambda>s. s)\<rparr>"

text \<open>
  A small document of the shape the code expects, for the concrete instances below: one
  ordinary category (source, region, role, right) and the category \<^verbatim>\<open>ugc\<close>, which has a
  platform level between source and region. Under \<^verbatim>\<open>us\<close> only the role
  \<^verbatim>\<open>artist_label\<close> has rights.
\<close>

definition sample_data :: pydict where
  "sample_data =
    [(''interactive_dsp'', JDict
       [(''spotify'', JDict
          [(''us'', JDict
              [(''artist_label'', JDict
                  [(''recording_revenues'', JDict
                      [(''collected_by'', JStr ''Distributor''), (''payee'', JStr ''Label'')])])]),
           (''us_usage_explainer_artist_label'', JStr ''Streams pay the label.'')])]),
     (''ugc'', JDict
       [(''organic'', JDict
          [(''youtube'', JDict
              [(''us'', JDict
                  [(''artist_label'', JDict
                      [(''sync_fees'', JDict
                          [(''fully_not_applicable'', JStr ''not tracked digitally'')])])])])])])]"

text \<open>
  A document with usage explainers. In the ordinary category both roles have rights under
  \<^verbatim>\<open>us\<close> and only \<^verbatim>\<open>artist_label\<close> has an explainer. In \<^verbatim>\<open>ugc\<close> the explainers are on the
  platform node: there is one for \<^verbatim>\<open>us\<close>, and for \<^verbatim>\<open>international\<close> there are only keys of
  other names.
\<close>

definition explainer_data :: pydict where
  "explainer_data =
    [(''interactive_dsp'', JDict
       [(''spotify'', JDict
          [(''us'', JDict
              [(''artist_label'', JDict
                  [(''recording_revenues'', JDict
                      [(''collected_by'', JStr ''Distributor''), (''payee'', JStr ''Label'')])]),
               (''writer_publisher'', JDict
                  [(''mechanical'', JDict
                      [(''collected_by'', JStr ''MLC''), (''payee'', JStr ''Publisher'')])])]),
           (''us_usage_explainer_artist_label'', JStr ''Streams pay the label.'')])]),
     (''ugc'', JDict
       [(''organic'', JDict
          [(''youtube'', JDict
              [(''us'', JDict
                  [(''artist_label'', JDict
                      [(''sync_fees'', JDict
                          [(''fully_not_applicable'', JStr ''not tracked digitally'')])])]),
               (''International'', JDict
                  [(''writer_publisher'', JDict
                      [(''performance'', JDict [(''collected_by'', JStr ''PRO'')])])]),
               (''us_usage_explainer_artist_label'', JStr ''Content ID pays the label.''),
               (''usage_explainer_writer_publisher'', JStr ''A generic text.''),
               (''us_usage_explainer_writer_publisher'', JStr ''A text for another region.'')])])])]"

section \<open>Basic facts\<close>

lemma bind_err_simps [simp]:
  "bind_err (Inl e) f = Inl e"
  "bind_err (Inr x) f = f x"
  by (simp_all add: bind_err_def)

lemma is_ascii_simps [simp]:
  "is_ascii [] = True"
  "is_ascii (c # s) = ((of_char c :: nat) < 128 \<and> is_ascii s)"
  by (simp_all add: is_ascii_def)

lemma lower_us: "lower U ''us'' = ''us''"
  by code_simp

lemma lower_International: "lower U ''International'' = ''international''"
  by code_simp

lemma lower_canada: "lower U ''canada'' = ''canada''"
  by code_simp

lemma lower_ugc: "lower U ''ugc'' = ''ugc''"
  by code_simp

lemma lower_interactive_dsp: "lower U ''interactive_dsp'' = ''interactive_dsp''"
  by code_simp

lemma sample_platform_node:
  "platform_node sample_data ''ugc'' ''organic'' ''youtube'' =
     Inr (JDict [(''us'', JDict [(''artist_label'', JDict
            [(''sync_fees'', JDict [(''fully_not_applicable'', JStr ''not tracked digitally'')])])])])"
  by (simp add: platform_node_def source_node_def py_index_def sample_data_def)

lemma sample_source_node:
  "source_node sample_data ''interactive_dsp'' ''spotify'' =
     Inr (JDict [(''us'', JDict [(''artist_label'', JDict [(''recording_revenues'', JDict
                   [(''collected_by'', JStr ''Distributor''), (''payee'', JStr ''Label'')])])]),
                 (''us_usage_explainer_artist_label'', JStr ''Streams pay the label.'')])"
  by (simp add: source_node_def py_index_def sample_data_def)

lemma friendly_text_artist_label: "friendly_text U ''artist_label'' = ''Artist/Label''"
  by code_simp

lemma friendly_text_us: "friendly_text U ''us'' = ''US''"
  by code_simp

lemma friendly_text_spotify: "friendly_text U ''spotify'' = ''spotify''"
  by code_simp

section \<open>Properties of loading\<close>

text \<open>
  Claim C9. In each of the three load-error conditions (the file is missing, its text
  is not valid JSON, the parsed root is not a dict) \<^verbatim>\<open>load_json\<close> returns normally, with
  the empty dataset and exactly one reported message.
\<close>

theorem load_json_fails_softly:
  "r = FileNotFoundError \<or> r = JSONDecodeError \<or> (\<exists>v. r = Parsed v \<and> \<not> is_dict v)
   \<Longrightarrow> \<exists>msg. load_json r = Inr ([msg], [])"
  by (auto simp: load_json_def split: json.splits)

theorem load_json_fails_softly_witness:
  "(\<exists>msg. load_json FileNotFoundError = Inr ([msg], []))
   \<and> (\<exists>msg. load_json JSONDecodeError = Inr ([msg], []))
   \<and> (\<exists>msg. load_json (Parsed (JList [JNum 1])) = Inr ([msg], []))"
  using load_json_fails_softly [of FileNotFoundError]
        load_json_fails_softly [of JSONDecodeError]
        load_json_fails_softly [of "Parsed (JList [JNum 1])"]
  by simp

section \<open>The diagram builder's guard\<close>

text \<open>
  Claim C5. When the rights argument is not a dict or is the empty dict,
  \<^verbatim>\<open>generate_flowchart\<close> reports the message "Unexpected or missing rights data for
  (role) in (region) for (source). Skipping flowchart.", each name passed through
  \<^verbatim>\<open>friendly_text\<close>, and builds no graph. For every other argument it reports no
  such message.
\<close>

theorem generate_flowchart_reports_missing_rights:
  "(\<not> is_dict rights \<or> rights = JDict [] \<longrightarrow>
      generate_flowchart U source region role rights =
        Inr (Skipped (''Unexpected or missing rights data for '' @ friendly_text U role @ '' in ''
               @ friendly_text U region @ '' for '' @ friendly_text U source @ ''. Skipping flowchart.'')))
   \<and> (is_dict rights \<and> rights \<noteq> JDict [] \<longrightarrow>
      (\<forall>m. generate_flowchart U source region role rights \<noteq> Inr (Skipped m)))"
  by (cases rights)
     (auto simp: generate_flowchart_def missing_rights_message_def bind_err_def split: sum.splits)

theorem generate_flowchart_reports_missing_rights_witness:
  "generate_flowchart plain_tables ''spotify'' ''us'' ''artist_label'' JNull =
     Inr (Skipped ''Unexpected or missing rights data for Artist/Label in US for spotify. Skipping flowchart.'')
   \<and> generate_flowchart plain_tables ''spotify'' ''us'' ''artist_label'' (JDict []) =
     Inr (Skipped ''Unexpected or missing rights data for Artist/Label in US for spotify. Skipping flowchart.'')
   \<and> (\<forall>m. generate_flowchart plain_tables ''spotify'' ''us'' ''artist_label''
              (JDict [(''mechanical'', JDict [(''collected_by'', JStr ''PRO'')])]) \<noteq> Inr (Skipped m))"
  using generate_flowchart_reports_missing_rights
          [where U = plain_tables and rights = JNull and source = "''spotify''" and region = "''us''"
             and role = "''artist_label''"]
        generate_flowchart_reports_missing_rights
          [where U = plain_tables and rights = "JDict []" and source = "''spotify''" and region = "''us''"
             and role = "''artist_label''"]
        generate_flowchart_reports_missing_rights
          [where U = plain_tables
             and rights = "JDict [(''mechanical'', JDict [(''collected_by'', JStr ''PRO'')])]"
             and source = "''spotify''" and region = "''us''" and role = "''artist_label''"]
  by (simp add: friendly_text_artist_label friendly_text_us friendly_text_spotify)

section \<open>Properties of the usage explainer\<close>

lemma explainer_data_selections_resolve:
  "rights_lookup U explainer_data ''ugc'' ''organic'' ''youtube'' ''us'' ''artist_label'' =
     Inr (JDict [(''sync_fees'', JDict [(''fully_not_applicable'', JStr ''not tracked digitally'')])])"
  "rights_lookup U explainer_data ''ugc'' ''organic'' ''youtube'' ''International'' ''writer_publisher'' =
     Inr (JDict [(''performance'', JDict [(''collected_by'', JStr ''PRO'')])])"
  "rights_lookup U explainer_data ''interactive_dsp'' ''spotify'' [] ''us'' ''artist_label'' =
     Inr (JDict [(''recording_revenues'', JDict
                   [(''collected_by'', JStr ''Distributor''), (''payee'', JStr ''Label'')])])"
  "rights_lookup U explainer_data ''interactive_dsp'' ''spotify'' [] ''us'' ''writer_publisher'' =
     Inr (JDict [(''mechanical'', JDict
                   [(''collected_by'', JStr ''MLC''), (''payee'', JStr ''Publisher'')])])"
  by code_simp+

text \<open>
  Claim C4. For every region and role, and whatever the Unicode tables are: the
  explainer key is \<^verbatim>\<open>us_usage_explainer_\<close> followed by the role when the lower-cased
  region is \<^verbatim>\<open>us\<close>, \<^verbatim>\<open>int_usage_explainer_\<close> followed by the role when it is
  \<^verbatim>\<open>international\<close>, and otherwise the lower-cased region followed by
  \<^verbatim>\<open>_usage_explainer_\<close> and the role. When the lower-cased category is \<^verbatim>\<open>ugc\<close> the key is
  read from the dict \<^verbatim>\<open>ROYALTY_DATA[category][subcategory][platform]\<close>, and otherwise from
  the dict \<^verbatim>\<open>ROYALTY_DATA[category][subcategory]\<close>; when that dict has no such key the
  text is the literal "No usage explainer available." and no other key is tried.
\<close>

theorem usage_explainer_key_and_lookup:
  "(lower U region = ''us'' \<longrightarrow> usage_key U region role = ''us_usage_explainer_'' @ role)
   \<and> (lower U region = ''international'' \<longrightarrow>
        usage_key U region role = ''int_usage_explainer_'' @ role)
   \<and> (lower U region \<noteq> ''us'' \<and> lower U region \<noteq> ''international'' \<longrightarrow>
        usage_key U region role = lower U region @ ''_usage_explainer_'' @ role)
   \<and> (lower U category = ''ugc''
        \<and> map_of ROYALTY_DATA category = Some (JDict sources)
        \<and> map_of sources subcategory = Some (JDict platforms)
        \<and> map_of platforms platform = Some (JDict node) \<longrightarrow>
        usage_text U ROYALTY_DATA category subcategory platform region role =
          Inr (case map_of node (usage_key U region role) of
                 None \<Rightarrow> JStr ''No usage explainer available.'' | Some text \<Rightarrow> text))
   \<and> (lower U category \<noteq> ''ugc''
        \<and> map_of ROYALTY_DATA category = Some (JDict sources)
        \<and> map_of sources subcategory = Some (JDict node) \<longrightarrow>
        usage_text U ROYALTY_DATA category subcategory platform region role =
          Inr (case map_of node (usage_key U region role) of
                 None \<Rightarrow> JStr ''No usage explainer available.'' | Some text \<Rightarrow> text))"
  by (auto simp: usage_key_def usage_text_def platform_node_def source_node_def py_index_def
        py_get_def no_usage_explainer_def split: option.splits)

theorem usage_explainer_key_and_lookup_witness:
  "usage_key plain_tables ''us'' ''artist_label'' = ''us_usage_explainer_artist_label''
   \<and> usage_key plain_tables ''International'' ''writer_publisher'' =
       ''int_usage_explainer_writer_publisher''
   \<and> usage_key plain_tables ''canada'' ''artist_label'' = ''canada_usage_explainer_artist_label''
   \<and> usage_text plain_tables explainer_data ''ugc'' ''organic'' ''youtube'' ''us'' ''artist_label'' =
       Inr (JStr ''Content ID pays the label.'')
   \<and> usage_text plain_tables explainer_data ''ugc'' ''organic'' ''youtube'' ''International''
         ''writer_publisher'' = Inr (JStr ''No usage explainer available.'')
   \<and> usage_text plain_tables explainer_data ''interactive_dsp'' ''spotify'' [] ''us'' ''artist_label'' =
       Inr (JStr ''Streams pay the label.'')
   \<and> usage_text plain_tables explainer_data ''interactive_dsp'' ''spotify'' [] ''us''
         ''writer_publisher'' = Inr (JStr ''No usage explainer available.'')"
proof -
  let ?youtube =
    "[(''us'', JDict
         [(''artist_label'', JDict
             [(''sync_fees'', JDict
                 [(''fully_not_applicable'', JStr ''not tracked digitally'')])])]),
      (''International'', JDict
         [(''writer_publisher'', JDict
             [(''performance'', JDict [(''collected_by'', JStr ''PRO'')])])]),
      (''us_usage_explainer_artist_label'', JStr ''Content ID pays the label.''),
      (''usage_explainer_writer_publisher'', JStr ''A generic text.''),
      (''us_usage_explainer_writer_publisher'', JStr ''A text for another region.'')]"
  let ?organic = "[(''youtube'', JDict ?youtube)]"
  let ?ugc = "[(''organic'', JDict ?organic)]"
  let ?spotify =
    "[(''us'', JDict
         [(''artist_label'', JDict
             [(''recording_revenues'', JDict
                 [(''collected_by'', JStr ''Distributor''), (''payee'', JStr ''Label'')])]),
          (''writer_publisher'', JDict
             [(''mechanical'', JDict
                 [(''collected_by'', JStr ''MLC''), (''payee'', JStr ''Publisher'')])])]),
      (''us_usage_explainer_artist_label'', JStr ''Streams pay the label.'')]"
  let ?dsp = "[(''spotify'', JDict ?spotify)]"
  note t = usage_explainer_key_and_lookup [where U = plain_tables]
  have k1: "usage_key plain_tables ''us'' ''artist_label'' = ''us_usage_explainer_artist_label''"
    using t [where region = "''us''" and role = "''artist_label''", THEN conjunct1] lower_us
    by simp
  have k2: "usage_key plain_tables ''International'' ''writer_publisher'' =
       ''int_usage_explainer_writer_publisher''"
    using t [where region = "''International''" and role = "''writer_publisher''",
             THEN conjunct2, THEN conjunct1] lower_International
    by simp
  have k3: "usage_key plain_tables ''canada'' ''artist_label'' = ''canada_usage_explainer_artist_label''"
    using t [where region = "''canada''" and role = "''artist_label''",
             THEN conjunct2, THEN conjunct2, THEN conjunct1] lower_canada
    by simp
  have k4: "usage_key plain_tables ''us'' ''writer_publisher'' = ''us_usage_explainer_writer_publisher''"
    using t [where region = "''us''" and role = "''writer_publisher''", THEN conjunct1] lower_us
    by simp
  have ugc: "lower plain_tables ''ugc'' = ''ugc''
      \<and> map_of explainer_data ''ugc'' = Some (JDict ?ugc)
      \<and> map_of ?ugc ''organic'' = Some (JDict ?organic)
      \<and> map_of ?organic ''youtube'' = Some (JDict ?youtube)"
    using lower_ugc by (simp add: explainer_data_def)
  have dsp: "lower plain_tables ''interactive_dsp'' \<noteq> ''ugc''
      \<and> map_of explainer_data ''interactive_dsp'' = Some (JDict ?dsp)
      \<and> map_of ?dsp ''spotify'' = Some (JDict ?spotify)"
    using lower_interactive_dsp by (simp add: explainer_data_def)
  have u1: "usage_text plain_tables explainer_data ''ugc'' ''organic'' ''youtube'' ''us''
              ''artist_label'' = Inr (JStr ''Content ID pays the label.'')"
    using t [where category = "''ugc''" and ROYALTY_DATA = explainer_data
               and sources = ?ugc and platforms = ?organic and node = ?youtube
               and subcategory = "''organic''" and platform = "''youtube''"
               and region = "''us''" and role = "''artist_label''",
             THEN conjunct2, THEN conjunct2, THEN conjunct2, THEN conjunct1, THEN mp, OF ugc]
    by (simp add: k1)
  have u2: "usage_text plain_tables explainer_data ''ugc'' ''organic'' ''youtube'' ''International''
              ''writer_publisher'' = Inr (JStr ''No usage explainer available.'')"
    using t [where category = "''ugc''" and ROYALTY_DATA = explainer_data
               and sources = ?ugc and platforms = ?organic and node = ?youtube
               and subcategory = "''organic''" and platform = "''youtube''"
               and region = "''International''" and role = "''writer_publisher''",
             THEN conjunct2, THEN conjunct2, THEN conjunct2, THEN conjunct1, THEN mp, OF ugc]
    by (simp add: k2)
  have s1: "usage_text plain_tables explainer_data ''interactive_dsp'' ''spotify'' [] ''us''
              ''artist_label'' = Inr (JStr ''Streams pay the label.'')"
    using t [where category = "''interactive_dsp''" and ROYALTY_DATA = explainer_data
               and sources = ?dsp and node = ?spotify
               and subcategory = "''spotify''" and platform = "[]"
               and region = "''us''" and role = "''artist_label''",
             THEN conjunct2, THEN conjunct2, THEN conjunct2, THEN conjunct2, THEN mp, OF dsp]
    by (simp add: k1)
  have s2: "usage_text plain_tables explainer_data ''interactive_dsp'' ''spotify'' [] ''us''
              ''writer_publisher'' = Inr (JStr ''No usage explainer available.'')"
    using t [where category = "''interactive_dsp''" and ROYALTY_DATA = explainer_data
               and sources = ?dsp and node = ?spotify
               and subcategory = "''spotify''" and platform = "[]"
               and region = "''us''" and role = "''writer_publisher''",
             THEN conjunct2, THEN conjunct2, THEN conjunct2, THEN conjunct2, THEN mp, OF dsp]
    by (simp add: k4)
  from k1 k2 k3 u1 u2 s1 s2 show ?thesis by simp
qed

section \<open>Resolving the selection path\<close>

text \<open>
  Claim C1 says that resolving the rights of a selection never raises when a key is
  missing, and yields an empty rights node instead. The code does so on some paths only.
  In the sample document the region \<^verbatim>\<open>us\<close> of an ordinary category has no
  \<^verbatim>\<open>writer_publisher\<close> role, which the role selector always offers: the lookup of line
  277 raises KeyError and so does the page, while the ugc lookup of line 274 returns the
  empty dict for the same gap. In \<^verbatim>\<open>get_rights_data\<close> the ugc branch raises KeyError
  for a source that is missing, while the other branch returns two empty lists.
\<close>

theorem rights_lookup_missing_role_raises:
  "rights_lookup U sample_data ''interactive_dsp'' ''spotify'' [] ''us'' ''writer_publisher'' = Inl KeyError
   \<and> page_flowchart U sample_data ''interactive_dsp'' ''spotify'' [] ''us'' ''writer_publisher'' = Inl KeyError
   \<and> rights_lookup U sample_data ''ugc'' ''organic'' ''youtube'' ''us'' ''writer_publisher'' = Inr (JDict [])
   \<and> page_flowchart U sample_data ''ugc'' ''organic'' ''youtube'' ''us'' ''writer_publisher'' =
       Inr (Skipped ''Unexpected or missing rights data for Writer/Publisher in US for Organic. Skipping flowchart.'')
   \<and> get_rights_data U sample_data ''ugc'' ''official_library'' ''us'' (Some ''youtube'') = Inl KeyError
   \<and> get_rights_data U sample_data ''interactive_dsp'' ''official_library'' ''us'' None = Inr ([], [])"
  by code_simp

section \<open>Properties of the checklist\<close>

lemma map_of_initial_status:
  "map_of (initial_status rs acc) k = (if k \<in> set rs then Some cross_mark else map_of acc k)"
  by (induction rs arbitrary: acc) (auto simp: AList.update_conv')

lemma table_step_text:
  "truthy (fully_not_applicable e) \<or> is_text (Collected_By e) \<Longrightarrow>
   \<exists>st'. table_step U e st = Inr st'
     \<and> map_of st' = (if marks_present e then (map_of st)(display_key U e \<mapsto> check_mark) else map_of st)"
  by (cases "Collected_By e")
     (auto simp: table_step_def marks_present_def is_text_def AList.update_conv')

lemma table_loop_text:
  "\<forall>e \<in> set es. truthy (fully_not_applicable e) \<or> is_text (Collected_By e) \<Longrightarrow>
   \<exists>st'. table_loop U es st = Inr st'
     \<and> (\<forall>k. map_of st' k =
           (if \<exists>e \<in> set es. marks_present e \<and> display_key U e = k then Some check_mark else map_of st k))"
proof (induction es arbitrary: st)
  case Nil
  then show ?case by simp
next
  case (Cons e es)
  from Cons.prems have "truthy (fully_not_applicable e) \<or> is_text (Collected_By e)" by simp
  from table_step_text [OF this, of U st] obtain st1 where
    s1: "table_step U e st = Inr st1" and
    m1: "map_of st1 = (if marks_present e then (map_of st)(display_key U e \<mapsto> check_mark) else map_of st)"
    by blast
  from Cons.prems have "\<forall>e \<in> set es. truthy (fully_not_applicable e) \<or> is_text (Collected_By e)"
    by simp
  from Cons.IH [OF this, of st1] obtain st' where
    l: "table_loop U es st1 = Inr st'" and
    m: "\<forall>k. map_of st' k =
           (if \<exists>e \<in> set es. marks_present e \<and> display_key U e = k then Some check_mark else map_of st1 k)"
    by blast
  have "table_loop U (e # es) st = Inr st'" using s1 l by (simp add: bind_err_def)
  moreover have "\<forall>k. map_of st' k =
           (if \<exists>x \<in> set (e # es). marks_present x \<and> display_key U x = k then Some check_mark else map_of st k)"
    using m m1 by auto
  ultimately show ?case by blast
qed

lemma status_column_total:
  "\<forall>r \<in> set rs. map_of st r \<noteq> None \<Longrightarrow>
   status_column st rs = Inr (map (\<lambda>r. the (map_of st r)) rs)"
  by (induction rs) (auto simp: bind_err_def)

lemma create_rights_table_text:
  assumes "\<forall>e \<in> set data_list. truthy (fully_not_applicable e) \<or> is_text (Collected_By e)"
  shows "create_rights_table U data_list rights_of_interest =
     Inr \<lparr>Rights = rights_of_interest,
          Applicable = map (\<lambda>r. if \<exists>e \<in> set data_list. marks_present e \<and> display_key U e = r
                                 then check_mark else cross_mark) rights_of_interest\<rparr>"
proof -
  from table_loop_text [OF assms, of U "initial_status rights_of_interest []"] obtain st' where
    l: "table_loop U data_list (initial_status rights_of_interest []) = Inr st'" and
    m: "\<forall>k. map_of st' k =
           (if \<exists>e \<in> set data_list. marks_present e \<and> display_key U e = k then Some check_mark
            else map_of (initial_status rights_of_interest []) k)"
    by blast
  have p: "\<forall>r \<in> set rights_of_interest. map_of st' r \<noteq> None"
    using m by (simp add: map_of_initial_status)
  have "map (\<lambda>r. the (map_of st' r)) rights_of_interest =
        map (\<lambda>r. if \<exists>e \<in> set data_list. marks_present e \<and> display_key U e = r
                                 then check_mark else cross_mark) rights_of_interest"
    using m by (auto simp: map_of_initial_status)
  with status_column_total [OF p] l show ?thesis
    by (simp add: create_rights_table_def bind_err_def)
qed

lemma display_key_sync_fees:
  "display_key U (make_entry ''sync fees'' [(''collected_by'', JStr ''Publisher'')]) = ''Sync Fees''"
  by code_simp

lemma display_key_mechanical:
  "display_key U (make_entry ''Mechanical''
      [(''fully_not_applicable'', JStr ''not collected''), (''collected_by'', JNum 3)])
     = ''Mechanical Rights''"
  by code_simp

lemma has_explanation_truthy: "has_explanation e \<Longrightarrow> truthy (fully_not_applicable e)"
  by (cases "fully_not_applicable e") (simp_all add: has_explanation_def)

lemma has_explanation_not_present: "has_explanation e \<Longrightarrow> \<not> marks_present e"
  by (simp add: marks_present_def has_explanation_truthy)

lemma explained_or_text:
  "\<forall>e \<in> set data_list. has_explanation e \<or> is_text (Collected_By e) \<Longrightarrow>
   \<forall>e \<in> set data_list. truthy (fully_not_applicable e) \<or> is_text (Collected_By e)"
  using has_explanation_truthy by blast

text \<open>
  Claim C2, as amended. Let every entry of the data list carry a non-empty
  not-applicable explanation or have a string as its collector. Let an entry carry a
  non-empty not-applicable explanation, let a position of \<^verbatim>\<open>rights_of_interest\<close> hold the
  entry's right name (lower-cased, spaces replaced by underscores) or the display name the
  code derives from it, and let no other entry of the list have as its display name what
  that position holds. Then \<^verbatim>\<open>create_rights_table\<close> returns a table whose rights column is
  \<^verbatim>\<open>rights_of_interest\<close> and which shows the cross mark at that position, whatever the
  entry's own collector is and whatever the Unicode tables are.
\<close>

theorem checklist_marks_absent:
  assumes "\<forall>e' \<in> set data_list. has_explanation e' \<or> is_text (Collected_By e')"
    and "e \<in> set data_list"
    and "has_explanation e"
    and "i < length rights_of_interest"
    and "rights_of_interest ! i = replace_space (lower U (Right e))
         \<or> rights_of_interest ! i = display_key U e"
    and "\<forall>e' \<in> set data_list. e' \<noteq> e \<longrightarrow> display_key U e' \<noteq> rights_of_interest ! i"
  shows "\<exists>df. create_rights_table U data_list rights_of_interest = Inr df
           \<and> Rights df = rights_of_interest
           \<and> length (Applicable df) = length rights_of_interest
           \<and> Applicable df ! i = cross_mark"
proof -
  have "\<not> marks_present e" using assms(3) by (rule has_explanation_not_present)
  with assms(6) have
    "\<not> (\<exists>x \<in> set data_list. marks_present x \<and> display_key U x = rights_of_interest ! i)"
    by auto
  with assms(4) show ?thesis
    by (auto simp: create_rights_table_text [OF explained_or_text [OF assms(1)]])
qed

theorem checklist_marks_absent_witness:
  "\<exists>df. create_rights_table plain_tables
          [make_entry ''sync fees'' [(''collected_by'', JStr ''Publisher'')],
           make_entry ''Mechanical''
             [(''fully_not_applicable'', JStr ''not collected''), (''collected_by'', JNum 3)]]
          [''Mechanical Rights'', ''Sync Fees''] = Inr df
     \<and> Rights df = [''Mechanical Rights'', ''Sync Fees'']
     \<and> Applicable df ! 0 = cross_mark"
proof -
  let ?e = "make_entry ''Mechanical''
              [(''fully_not_applicable'', JStr ''not collected''), (''collected_by'', JNum 3)]"
  let ?dl = "[make_entry ''sync fees'' [(''collected_by'', JStr ''Publisher'')], ?e]"
  let ?roi = "[''Mechanical Rights'', ''Sync Fees'']"
  have h1: "\<forall>e' \<in> set ?dl. has_explanation e' \<or> is_text (Collected_By e')"
    by (simp add: make_entry_def get_or_def is_text_def has_explanation_def)
  have h2: "?e \<in> set ?dl" by simp
  have h3: "has_explanation ?e" by (simp add: make_entry_def get_or_def has_explanation_def)
  have h4: "0 < length ?roi" by simp
  have h5: "?roi ! 0 = replace_space (lower plain_tables (Right ?e))
            \<or> ?roi ! 0 = display_key plain_tables ?e"
    by (simp add: display_key_mechanical)
  have h6: "\<forall>e' \<in> set ?dl. e' \<noteq> ?e \<longrightarrow> display_key plain_tables e' \<noteq> ?roi ! 0"
    by (simp add: display_key_sync_fees display_key_mechanical)
  from checklist_marks_absent [OF h1 h2 h3 h4 h5 h6]
  obtain df where
    "create_rights_table plain_tables ?dl ?roi = Inr df \<and> Rights df = ?roi
       \<and> length (Applicable df) = length ?roi \<and> Applicable df ! 0 = cross_mark" ..
  then show ?thesis by auto
qed

text \<open>
  The claim as stated fails in three ways. A second entry whose right has the same display
  name and is applicable marks the right present although the first entry is not
  applicable, both when \<^verbatim>\<open>rights_of_interest\<close> holds the display name and when it holds
  the normalized name itself (a right outside the table of line 193 is displayed under its
  normalized name); and a second entry whose collector is not a string makes line 205
  raise, so that no table is returned at all.
\<close>

theorem checklist_not_applicable_counterexample:
  "create_rights_table plain_tables
     [make_entry ''mechanical'' [(''fully_not_applicable'', JStr ''not collected here'')],
      make_entry ''Mechanical'' [(''collected_by'', JStr ''MLC'')]]
     [''Mechanical Rights''] = Inr \<lparr>Rights = [''Mechanical Rights''], Applicable = [check_mark]\<rparr>
   \<and> display_key plain_tables
        (make_entry ''mechanical'' [(''fully_not_applicable'', JStr ''not collected here'')])
       = ''Mechanical Rights''
   \<and> create_rights_table plain_tables
       [make_entry ''streaming'' [(''fully_not_applicable'', JStr ''not collected here'')],
        make_entry ''Streaming'' [(''collected_by'', JStr ''DSP'')]]
       [''streaming''] = Inr \<lparr>Rights = [''streaming''], Applicable = [check_mark]\<rparr>
   \<and> replace_space (lower plain_tables
        (Right (make_entry ''streaming'' [(''fully_not_applicable'', JStr ''not collected here'')])))
       = ''streaming''
   \<and> create_rights_table plain_tables
       [make_entry ''mechanical'' [(''fully_not_applicable'', JStr ''not collected here'')],
        make_entry ''performance'' [(''collected_by'', JNum 3)]]
       [''Mechanical Rights''] = Inl AttributeError
   \<and> check_mark \<noteq> cross_mark"
  by code_simp

text \<open>
  Claim C3, as amended. Let every entry of the data list carry a non-empty
  not-applicable explanation or have a string as its collector. If an entry's
  not-applicable value is unset (the null that \<^verbatim>\<open>get_rights_data\<close> stores for a right
  without the marker), and its collector is a non-empty string that does not start with
  the cross mark, then \<^verbatim>\<open>create_rights_table\<close> returns a table that shows the check mark
  wherever \<^verbatim>\<open>rights_of_interest\<close> holds the entry's display name; and the table's rights
  column is \<^verbatim>\<open>rights_of_interest\<close> itself, in the caller's order, with one status for
  each. This holds whatever the Unicode tables are.
\<close>

theorem checklist_marks_present:
  assumes "\<forall>e' \<in> set data_list. has_explanation e' \<or> is_text (Collected_By e')"
    and "e \<in> set data_list"
    and "fully_not_applicable e = JNull"
    and "Collected_By e = JStr s" and "s \<noteq> []" and "\<not> startswith s cross_mark"
  shows "\<exists>df. create_rights_table U data_list rights_of_interest = Inr df
           \<and> Rights df = rights_of_interest
           \<and> length (Applicable df) = length rights_of_interest
           \<and> (\<forall>i < length rights_of_interest.
                 rights_of_interest ! i = display_key U e \<longrightarrow> Applicable df ! i = check_mark)"
proof -
  have "marks_present e" using assms(3-6) by (simp add: marks_present_def)
  with assms(2) have "\<forall>i < length rights_of_interest. rights_of_interest ! i = display_key U e \<longrightarrow>
      (\<exists>x \<in> set data_list. marks_present x \<and> display_key U x = rights_of_interest ! i)"
    by auto
  then show ?thesis
    by (simp add: create_rights_table_text [OF explained_or_text [OF assms(1)]])
qed

theorem checklist_marks_present_witness:
  "\<exists>df. create_rights_table plain_tables
          [make_entry ''sync fees'' [(''collected_by'', JStr ''Publisher'')],
           make_entry ''Mechanical''
             [(''fully_not_applicable'', JStr ''not collected''), (''collected_by'', JNum 3)]]
          [''Mechanical Rights'', ''Sync Fees''] = Inr df
     \<and> Rights df = [''Mechanical Rights'', ''Sync Fees'']
     \<and> Applicable df ! 1 = check_mark"
proof -
  let ?e = "make_entry ''sync fees'' [(''collected_by'', JStr ''Publisher'')]"
  let ?dl = "[?e, make_entry ''Mechanical''
                [(''fully_not_applicable'', JStr ''not collected''), (''collected_by'', JNum 3)]]"
  let ?roi = "[''Mechanical Rights'', ''Sync Fees'']"
  have h1: "\<forall>e' \<in> set ?dl. has_explanation e' \<or> is_text (Collected_By e')"
    by (simp add: make_entry_def get_or_def is_text_def has_explanation_def)
  have h2: "?e \<in> set ?dl" by simp
  have h3: "fully_not_applicable ?e = JNull" by (simp add: make_entry_def get_or_def)
  have h4: "Collected_By ?e = JStr ''Publisher''" by (simp add: make_entry_def get_or_def)
  have h5: "''Publisher'' \<noteq> []" by simp
  have h6: "\<not> startswith ''Publisher'' cross_mark" by (simp add: startswith_def cross_mark_def)
  from checklist_marks_present [OF h1 h2 h3 h4 h5 h6, of plain_tables ?roi]
  obtain df where
    "create_rights_table plain_tables ?dl ?roi = Inr df"
    "Rights df = ?roi"
    "\<forall>i < 2. ?roi ! i = display_key plain_tables ?e \<longrightarrow> Applicable df ! i = check_mark"
    by auto
  then show ?thesis by (auto simp: display_key_sync_fees)
qed

text \<open>
  The claim as stated fails in three ways. Line 205 excludes a collector that starts with
  the cross mark, and the right stays absent. The assignment of line 206 is made under the
  display name, so when \<^verbatim>\<open>rights_of_interest\<close> holds the normalized name of a right of
  the table of line 193 nothing is marked present. And another entry whose collector is
  not a string makes line 205 raise, so that no table is returned at all.
\<close>

theorem checklist_sentinel_counterexample:
  "create_rights_table plain_tables
     [make_entry ''mechanical'' [(''collected_by'', JStr (cross_mark @ '' None''))]]
     [''Mechanical Rights''] = Inr \<lparr>Rights = [''Mechanical Rights''], Applicable = [cross_mark]\<rparr>
   \<and> fully_not_applicable (make_entry ''mechanical'' [(''collected_by'', JStr (cross_mark @ '' None''))]) = JNull
   \<and> Collected_By (make_entry ''mechanical'' [(''collected_by'', JStr (cross_mark @ '' None''))]) \<noteq> JStr []
   \<and> display_key plain_tables (make_entry ''mechanical'' [(''collected_by'', JStr (cross_mark @ '' None''))])
       = ''Mechanical Rights''
   \<and> create_rights_table plain_tables
       [make_entry ''mechanical'' [(''collected_by'', JStr ''MLC'')]]
       [''mechanical''] = Inr \<lparr>Rights = [''mechanical''], Applicable = [cross_mark]\<rparr>
   \<and> replace_space (lower plain_tables (Right (make_entry ''mechanical'' [(''collected_by'', JStr ''MLC'')])))
       = ''mechanical''
   \<and> create_rights_table plain_tables
       [make_entry ''mechanical'' [(''collected_by'', JStr ''MLC'')],
        make_entry ''performance'' [(''collected_by'', JNum 3)]]
       [''Mechanical Rights''] = Inl AttributeError
   \<and> cross_mark \<noteq> check_mark"
  by code_simp

section \<open>The loop of the diagram builder\<close>

lemma add_node_fields [simp]:
  "set (g_nodes (add_node n st)) = insert n (set (g_nodes st))"
  "g_edges (add_node n st) = g_edges st"
  "node_colors (add_node n st) = node_colors st"
  "node_positions (add_node n st) = node_positions st"
  by (auto simp: add_node_def)

lemma add_edge_fields [simp]:
  "set (g_nodes (add_edge u v st)) = insert u (insert v (set (g_nodes st)))"
  "set (g_edges (add_edge u v st)) = insert (u, v) (set (g_edges st))"
  "node_colors (add_edge u v st) = node_colors st"
  "node_positions (add_edge u v st) = node_positions st"
  by (auto simp: add_edge_def Let_def)

lemma set_color_fields [simp]:
  "g_nodes (set_color n c st) = g_nodes st"
  "g_edges (set_color n c st) = g_edges st"
  "map_of (node_colors (set_color n c st)) = (map_of (node_colors st))(n \<mapsto> c)"
  "node_positions (set_color n c st) = node_positions st"
  by (simp_all add: set_color_def AList.update_conv')

lemma set_position_fields [simp]:
  "g_nodes (set_position n p st) = g_nodes st"
  "g_edges (set_position n p st) = g_edges st"
  "node_colors (set_position n p st) = node_colors st"
  "map_of (node_positions (set_position n p st)) = (map_of (node_positions st))(n \<mapsto> p)"
  by (simp_all add: set_position_def AList.update_conv')

lemma strip_Nil [simp]: "strip U [] = []"
  by (simp add: strip_def)

lemma get_stripped_text:
  "text_field det k \<Longrightarrow> get_stripped U det k = Inr (stripped_field U det k)"
  by (auto simp: text_field_def get_stripped_def stripped_field_def is_text_def
           split: option.splits json.splits)

lemma get_stripped_not_text:
  "\<not> text_field det k \<Longrightarrow> get_stripped U det k = Inl AttributeError"
  by (auto simp: text_field_def get_stripped_def is_text_def split: option.splits json.splits)

lemma fc_step_dict:
  "text_field det ''collected_by'' \<Longrightarrow> text_field det ''payee'' \<Longrightarrow>
   fc_step U source role mid_y (i, right, JDict det) st =
     Inr (if is_not_applicable det then place_right source right i True st
          else fc_chain right x_offset (- of_nat i * y_offset) mid_y
                 (stripped_field U det ''collected_by'') (payee_label U role det)
                 (place_right source right i False st))"
  by (simp add: fc_step_def get_stripped_text is_not_applicable_def payee_label_def place_right_def
        Let_def)

lemma fc_step_dict_error:
  "\<not> (text_field det ''collected_by'' \<and> text_field det ''payee'') \<Longrightarrow>
   fc_step U source role mid_y (i, right, JDict det) st = Inl AttributeError"
  by (cases "text_field det ''collected_by''")
     (auto simp: fc_step_def get_stripped_text get_stripped_not_text)

lemma fc_step_not_dict:
  "\<not> is_dict details \<Longrightarrow> fc_step U source role mid_y (i, right, details) st = Inr st"
  by (cases details) (simp_all add: fc_step_def)

lemma place_right_fields [simp]:
  "set (g_nodes (place_right source right i na st)) = insert source (insert right (set (g_nodes st)))"
  "set (g_edges (place_right source right i na st)) = insert (source, right) (set (g_edges st))"
  "map_of (node_colors (place_right source right i na st)) =
     (map_of (node_colors st))(right \<mapsto> (if na then ''red'' else source_color))"
  "map_of (node_positions (place_right source right i na st)) =
     (map_of (node_positions st))(right \<mapsto> (x_offset, - of_nat i * y_offset))"
  by (auto simp: place_right_def Let_def)

lemma fc_chain_nodes:
  "set (g_nodes (fc_chain right rx ry mid_y c p st)) =
     set (g_nodes st) \<union> (if c \<noteq> [] then {right, c} else {})
       \<union> (if p \<noteq> [] then {if c \<noteq> [] then c else right, p} else {})"
  by (auto simp: fc_chain_def Let_def)

lemma fc_chain_edges:
  "set (g_edges (fc_chain right rx ry mid_y c p st)) =
     set (g_edges st) \<union> (if c \<noteq> [] then {(right, c)} else {})
       \<union> (if p \<noteq> [] then {(if c \<noteq> [] then c else right, p)} else {})"
  by (auto simp: fc_chain_def Let_def)

lemma fc_chain_colors:
  "map_of (node_colors (fc_chain right rx ry mid_y c p st)) l =
     (if (p \<noteq> [] \<and> l = p) \<or> (c \<noteq> [] \<and> l = c) then Some source_color
      else map_of (node_colors st) l)"
  by (auto simp: fc_chain_def Let_def)

lemma fc_chain_positions:
  "map_of (node_positions (fc_chain right rx ry mid_y c p st)) l =
     (if p \<noteq> [] \<and> l = p then Some (rx + x_offset + x_offset, mid_y)
      else if c \<noteq> [] \<and> l = c then Some (rx + x_offset, ry)
      else map_of (node_positions st) l)"
  by (auto simp: fc_chain_def Let_def)

lemma fc_init_fields [simp]:
  "g_nodes (fc_init source mid_y) = [source]"
  "g_edges (fc_init source mid_y) = []"
  "node_colors (fc_init source mid_y) = [(source, source_color)]"
  "node_positions (fc_init source mid_y) = [(source, (0, mid_y))]"
  by (simp_all add: fc_init_def add_node_def set_color_def set_position_def)

lemma fc_loop_filter:
  "fc_loop U source role mid_y (filter (\<lambda>(i, right, details). is_dict details) items) st =
     fc_loop U source role mid_y items st"
proof (induction items arbitrary: st)
  case Nil
  show ?case by simp
next
  case (Cons item items)
  obtain i right details where item: "item = (i, right, details)"
    by (cases item) auto
  show ?case
  proof (cases "is_dict details")
    case True
    with Cons.IH item show ?thesis
      by (cases "fc_step U source role mid_y (i, right, details) st") simp_all
  next
    case False
    with Cons.IH item show ?thesis
      by (simp add: fc_step_not_dict)
  qed
qed

lemma mechanical_example:
  assumes "source \<noteq> ''mechanical''" "source \<noteq> ''PRO''" "source \<noteq> ''artist_label''"
  shows "generate_flowchart U source region ''artist_label''
          (JDict [(''mechanical'', JDict [(''collected_by'', JStr ''PRO''), (''payee'', JStr [])])]) =
        Inr (Drawn \<lparr>g_nodes = [source, ''mechanical'', ''PRO'', ''artist_label''],
                    g_edges = [(source, ''mechanical''), (''mechanical'', ''PRO''),
                               (''PRO'', ''artist_label'')],
                    node_colors = [(source, source_color), (''mechanical'', source_color),
                                   (''PRO'', source_color), (''artist_label'', source_color)],
                    node_positions = [(source, (0, 0)), (''mechanical'', (2, 0)), (''PRO'', (4, 0)),
                                      (''artist_label'', (6, 0))]\<rparr>)"
proof -
  let ?det = "[(''collected_by'', JStr ''PRO''), (''payee'', JStr [])]"
  have tf: "text_field ?det ''collected_by''" "text_field ?det ''payee''" "\<not> is_not_applicable ?det"
    by (simp_all add: text_field_def is_text_def is_not_applicable_def)
  have c: "stripped_field U ?det ''collected_by'' = ''PRO''"
    by (simp add: stripped_field_def strip_def is_space_def)
  have p: "payee_label U ''artist_label'' ?det = ''artist_label''"
    by (simp add: payee_label_def stripped_field_def)
  have m: "mid_y_of (Suc 0) = 0" by (simp add: mid_y_of_def)
  have s0: "fc_init source 0 = \<lparr>g_nodes = [source], g_edges = [],
      node_colors = [(source, source_color)], node_positions = [(source, (0, 0))]\<rparr>"
    by (simp add: fc_init_def add_node_def set_color_def set_position_def)
  have s1: "place_right source ''mechanical'' 0 False \<lparr>g_nodes = [source], g_edges = [],
      node_colors = [(source, source_color)], node_positions = [(source, (0, 0))]\<rparr>
     = \<lparr>g_nodes = [source, ''mechanical''], g_edges = [(source, ''mechanical'')],
      node_colors = [(source, source_color), (''mechanical'', source_color)],
      node_positions = [(source, (0, 0)), (''mechanical'', (2, 0))]\<rparr>"
    using assms
    by (simp add: place_right_def add_node_def add_edge_def set_color_def set_position_def
        x_offset_def y_offset_def Let_def)
  have s2: "fc_chain ''mechanical'' x_offset 0 0 ''PRO'' ''artist_label''
      \<lparr>g_nodes = [source, ''mechanical''], g_edges = [(source, ''mechanical'')],
      node_colors = [(source, source_color), (''mechanical'', source_color)],
      node_positions = [(source, (0, 0)), (''mechanical'', (2, 0))]\<rparr>
     = \<lparr>g_nodes = [source, ''mechanical'', ''PRO'', ''artist_label''],
                    g_edges = [(source, ''mechanical''), (''mechanical'', ''PRO''),
                               (''PRO'', ''artist_label'')],
                    node_colors = [(source, source_color), (''mechanical'', source_color),
                                   (''PRO'', source_color), (''artist_label'', source_color)],
                    node_positions = [(source, (0, 0)), (''mechanical'', (2, 0)), (''PRO'', (4, 0)),
                                      (''artist_label'', (6, 0))]\<rparr>"
    using assms
    by (simp add: fc_chain_def add_node_def add_edge_def set_color_def set_position_def
        x_offset_def y_offset_def Let_def)
  show ?thesis
    by (simp add: generate_flowchart_def fc_step_dict tf c p m s0 s1 s2)
qed

lemma sync_fees_example:
  assumes "source \<noteq> ''sync_fees''"
  shows "generate_flowchart U source region role
          (JDict [(''sync_fees'', JDict [(''fully_not_applicable'', JStr ''not tracked digitally'')])]) =
        Inr (Drawn \<lparr>g_nodes = [source, ''sync_fees''],
                    g_edges = [(source, ''sync_fees'')],
                    node_colors = [(source, source_color), (''sync_fees'', ''red'')],
                    node_positions = [(source, (0, 0)), (''sync_fees'', (2, 0))]\<rparr>)"
  using assms
  by (simp add: generate_flowchart_def fc_step_def get_stripped_def place_right_def
        add_node_def add_edge_def set_color_def set_position_def
        mid_y_of_def x_offset_def y_offset_def Let_def)

section \<open>One label through the loop\<close>

text \<open>
  Nodes are identified by their label, and a label written twice keeps the colour and
  the position written last. The lemmas below follow one label through the loop: what
  an iteration writes, what it leaves alone, and what the finished graph can contain.
\<close>

lemma fc_step_positions:
  assumes "fc_step U source role mid_y (i, right, JDict det) st = Inr st'"
  shows "map_of (node_positions st') l =
     (if \<not> is_not_applicable det \<and> payee_label U role det \<noteq> [] \<and> l = payee_label U role det
        then Some (6, mid_y)
      else if \<not> is_not_applicable det \<and> stripped_field U det ''collected_by'' \<noteq> []
                \<and> l = stripped_field U det ''collected_by''
        then Some (4, - of_nat i * 2)
      else if l = right then Some (2, - of_nat i * 2)
      else map_of (node_positions st) l)"
proof -
  have t: "text_field det ''collected_by'' \<and> text_field det ''payee''"
    using assms fc_step_dict_error by fastforce
  then have "st' = (if is_not_applicable det then place_right source right i True st
          else fc_chain right x_offset (- of_nat i * y_offset) mid_y
                 (stripped_field U det ''collected_by'') (payee_label U role det)
                 (place_right source right i False st))"
    using assms by (simp add: fc_step_dict)
  then show ?thesis
    by (simp add: fc_chain_positions x_offset_def y_offset_def)
qed

lemma fc_step_graph:
  assumes "fc_step U source role mid_y (i, right, JDict det) st = Inr st'"
  shows "set (g_nodes st) \<subseteq> set (g_nodes st')"
    and "set (g_edges st) \<subseteq> set (g_edges st')"
    and "right \<in> set (g_nodes st')"
    and "(source, right) \<in> set (g_edges st')"
    and "\<not> is_not_applicable det \<Longrightarrow> payee_label U role det \<noteq> [] \<Longrightarrow>
         payee_label U role det \<in> set (g_nodes st')"
proof -
  have t: "text_field det ''collected_by'' \<and> text_field det ''payee''"
    using assms fc_step_dict_error by fastforce
  then have s: "st' = (if is_not_applicable det then place_right source right i True st
          else fc_chain right x_offset (- of_nat i * y_offset) mid_y
                 (stripped_field U det ''collected_by'') (payee_label U role det)
                 (place_right source right i False st))"
    using assms by (simp add: fc_step_dict)
  show "set (g_nodes st) \<subseteq> set (g_nodes st')"
    using s by (auto simp: fc_chain_nodes)
  show "set (g_edges st) \<subseteq> set (g_edges st')"
    using s by (auto simp: fc_chain_edges)
  show "right \<in> set (g_nodes st')"
    using s by (auto simp: fc_chain_nodes)
  show "(source, right) \<in> set (g_edges st')"
    using s by (auto simp: fc_chain_edges)
  show "\<not> is_not_applicable det \<Longrightarrow> payee_label U role det \<noteq> [] \<Longrightarrow>
         payee_label U role det \<in> set (g_nodes st')"
    using s by (auto simp: fc_chain_nodes)
qed

lemma fc_step_mono:
  assumes "fc_step U source role mid_y item st = Inr st'"
  shows "set (g_nodes st) \<subseteq> set (g_nodes st') \<and> set (g_edges st) \<subseteq> set (g_edges st')"
proof -
  obtain i right details where item: "item = (i, right, details)"
    by (cases item) auto
  show ?thesis
  proof (cases details)
    case (JDict det)
    with assms item fc_step_graph(1,2) show ?thesis by blast
  qed (use assms item in \<open>simp_all add: fc_step_def\<close>)
qed

lemma fc_loop_mono:
  "fc_loop U source role mid_y items st = Inr st' \<Longrightarrow>
   set (g_nodes st) \<subseteq> set (g_nodes st') \<and> set (g_edges st) \<subseteq> set (g_edges st')"
proof (induction items arbitrary: st)
  case Nil
  then show ?case by simp
next
  case (Cons item items)
  then obtain st1 where s: "fc_step U source role mid_y item st = Inr st1"
    and l: "fc_loop U source role mid_y items st1 = Inr st'"
    by (cases "fc_step U source role mid_y item st") auto
  from fc_step_mono [OF s] Cons.IH [OF l] show ?case by blast
qed

lemma names_Cons:
  "right_names ((right, details) # d) = (if is_dict details then right # right_names d else right_names d)"
  "collector_names U ((right, details) # d) = collector_labels U details @ collector_names U d"
  "payee_names U role ((right, details) # d) = payee_labels U role details @ payee_names U role d"
  by (simp_all add: right_names_def collector_names_def payee_names_def)

lemma names_Nil [simp]:
  "right_names [] = []" "collector_names U [] = []" "payee_names U role [] = []"
  by (simp_all add: right_names_def collector_names_def payee_names_def)

lemma fc_step_positions_frame:
  assumes "fc_step U source role mid_y (i, right, details) st = Inr st'"
    and "l \<notin> set (right_names [(right, details)])"
    and "l \<notin> set (collector_labels U details)"
    and "l \<notin> set (payee_labels U role details)"
  shows "map_of (node_positions st') l = map_of (node_positions st) l"
proof (cases details)
  case (JDict det)
  with assms show ?thesis
    by (auto simp: fc_step_positions names_Cons split: if_splits)
qed (use assms in \<open>simp_all add: fc_step_def\<close>)

lemma fc_loop_positions_frame:
  "fc_loop U source role mid_y items st = Inr st' \<Longrightarrow>
   l \<notin> set (right_names (map snd items)) \<Longrightarrow>
   l \<notin> set (collector_names U (map snd items)) \<Longrightarrow>
   l \<notin> set (payee_names U role (map snd items)) \<Longrightarrow>
   map_of (node_positions st') l = map_of (node_positions st) l"
proof (induction items arbitrary: st)
  case Nil
  then show ?case by simp
next
  case (Cons item items)
  obtain i right details where item: "item = (i, right, details)"
    by (cases item) auto
  from Cons.prems(1) obtain st1 where s: "fc_step U source role mid_y item st = Inr st1"
    and l: "fc_loop U source role mid_y items st1 = Inr st'"
    by (cases "fc_step U source role mid_y item st") auto
  have "map_of (node_positions st1) l = map_of (node_positions st) l"
    using s Cons.prems(2-4) item
    by (intro fc_step_positions_frame [of U source role mid_y i right details st st1])
       (auto simp: names_Cons split: if_splits)
  moreover have "map_of (node_positions st') l = map_of (node_positions st1) l"
    using Cons.IH [OF l] Cons.prems(2-4) item by (auto simp: names_Cons split: if_splits)
  ultimately show ?case by simp
qed

lemma fc_loop_payee_position:
  "fc_loop U source role mid_y items st = Inr st' \<Longrightarrow>
   l \<notin> set (right_names (map snd items)) \<Longrightarrow>
   l \<notin> set (collector_names U (map snd items)) \<Longrightarrow>
   map_of (node_positions st) l = Some (6, mid_y) \<or> l \<in> set (payee_names U role (map snd items)) \<Longrightarrow>
   map_of (node_positions st') l = Some (6, mid_y)"
proof (induction items arbitrary: st)
  case Nil
  then show ?case by simp
next
  case (Cons item items)
  obtain i right details where item: "item = (i, right, details)"
    by (cases item) auto
  from Cons.prems(1) obtain st1 where s: "fc_step U source role mid_y item st = Inr st1"
    and l: "fc_loop U source role mid_y items st1 = Inr st'"
    by (cases "fc_step U source role mid_y item st") auto
  have r: "l \<notin> set (right_names (map snd items))" "l \<notin> set (collector_names U (map snd items))"
    using Cons.prems(2,3) item by (auto simp: names_Cons split: if_splits)
  have "map_of (node_positions st1) l = Some (6, mid_y) \<or> l \<in> set (payee_names U role (map snd items))"
  proof (cases details)
    case (JDict det)
    have p: "map_of (node_positions st1) l =
     (if \<not> is_not_applicable det \<and> payee_label U role det \<noteq> [] \<and> l = payee_label U role det
        then Some (6, mid_y)
      else if \<not> is_not_applicable det \<and> stripped_field U det ''collected_by'' \<noteq> []
                \<and> l = stripped_field U det ''collected_by''
        then Some (4, - of_nat i * 2)
      else if l = right then Some (2, - of_nat i * 2)
      else map_of (node_positions st) l)"
      using s item JDict by (simp add: fc_step_positions)
    have nr: "l \<noteq> right" using Cons.prems(2) item JDict by (simp add: names_Cons)
    have nc: "\<not> (\<not> is_not_applicable det \<and> stripped_field U det ''collected_by'' \<noteq> []
                \<and> l = stripped_field U det ''collected_by'')"
      using Cons.prems(3) item JDict by (auto simp: names_Cons)
    from Cons.prems(4) item JDict
    have "map_of (node_positions st) l = Some (6, mid_y)
          \<or> (\<not> is_not_applicable det \<and> payee_label U role det \<noteq> [] \<and> l = payee_label U role det)
          \<or> l \<in> set (payee_names U role (map snd items))"
      by (auto simp: names_Cons split: if_splits)
    with p nr nc show ?thesis by auto
  next
    case JNull
    with s item Cons.prems(4) show ?thesis by (auto simp: fc_step_def names_Cons)
  next
    case (JBool b)
    with s item Cons.prems(4) show ?thesis by (auto simp: fc_step_def names_Cons)
  next
    case (JNum q)
    with s item Cons.prems(4) show ?thesis by (auto simp: fc_step_def names_Cons)
  next
    case (JStr t)
    with s item Cons.prems(4) show ?thesis by (auto simp: fc_step_def names_Cons)
  next
    case (JList xs)
    with s item Cons.prems(4) show ?thesis by (auto simp: fc_step_def names_Cons)
  qed
  with Cons.IH [OF l r] show ?case by simp
qed

lemma fc_loop_payee_node:
  "fc_loop U source role mid_y items st = Inr st' \<Longrightarrow>
   l \<in> set (payee_names U role (map snd items)) \<Longrightarrow> l \<in> set (g_nodes st')"
proof (induction items arbitrary: st)
  case Nil
  then show ?case by simp
next
  case (Cons item items)
  obtain i right details where item: "item = (i, right, details)"
    by (cases item) auto
  from Cons.prems(1) obtain st1 where s: "fc_step U source role mid_y item st = Inr st1"
    and l: "fc_loop U source role mid_y items st1 = Inr st'"
    by (cases "fc_step U source role mid_y item st") auto
  from Cons.prems(2) item
  consider "l \<in> set (payee_labels U role details)" | "l \<in> set (payee_names U role (map snd items))"
    by (auto simp: names_Cons)
  then show ?case
  proof cases
    case 1
    then obtain det where d: "details = JDict det" "\<not> is_not_applicable det"
      "payee_label U role det \<noteq> []" "l = payee_label U role det"
      by (cases details) (auto split: if_splits)
    with s item have "l \<in> set (g_nodes st1)"
      using fc_step_graph(5) by blast
    with fc_loop_mono [OF l] show ?thesis by blast
  next
    case 2
    with Cons.IH [OF l] show ?thesis by simp
  qed
qed

lemma fc_loop_right_placed:
  "fc_loop U source role mid_y (enumerate k d) st = Inr st' \<Longrightarrow>
   distinct (map fst d) \<Longrightarrow> j < length d \<Longrightarrow> d ! j = (right, JDict det) \<Longrightarrow>
   right \<in> set (g_nodes st') \<and> (source, right) \<in> set (g_edges st')
   \<and> (right \<notin> set (collector_names U d) \<and> right \<notin> set (payee_names U role d) \<longrightarrow>
        map_of (node_positions st') right = Some (2, - of_nat (k + j) * 2))"
proof (induction d arbitrary: k st j)
  case Nil
  then show ?case by simp
next
  case (Cons x d)
  obtain r0 v0 where x: "x = (r0, v0)" by (cases x) auto
  from Cons.prems(1) x obtain st1 where s: "fc_step U source role mid_y (k, r0, v0) st = Inr st1"
    and l: "fc_loop U source role mid_y (enumerate (Suc k) d) st1 = Inr st'"
    by (cases "fc_step U source role mid_y (k, r0, v0) st") auto
  show ?case
  proof (cases j)
    case 0
    with Cons.prems(4) x have e: "r0 = right" "v0 = JDict det" by simp_all
    from s e have g: "right \<in> set (g_nodes st1)" "(source, right) \<in> set (g_edges st1)"
      using fc_step_graph(3,4) by blast+
    have nr: "right \<notin> set (right_names d)"
      using Cons.prems(2) x e by (auto simp: right_names_def)
    have "map_of (node_positions st') right = Some (2, - of_nat (k + j) * 2)"
      if c: "right \<notin> set (collector_names U (x # d))" and p: "right \<notin> set (payee_names U role (x # d))"
    proof -
      from c p x e have own: "right \<notin> set (collector_labels U (JDict det))"
        "right \<notin> set (payee_labels U role (JDict det))"
        and rest: "right \<notin> set (collector_names U d)" "right \<notin> set (payee_names U role d)"
        by (auto simp: names_Cons)
      from s e own have "map_of (node_positions st1) right = Some (2, - of_nat k * 2)"
        by (auto simp: fc_step_positions split: if_splits)
      moreover have "map_of (node_positions st') right = map_of (node_positions st1) right"
        using fc_loop_positions_frame [OF l, of right] nr rest by simp
      ultimately show ?thesis using 0 by simp
    qed
    with g fc_loop_mono [OF l] show ?thesis by blast
  next
    case (Suc j')
    with Cons.prems have "distinct (map fst d)" "j' < length d" "d ! j' = (right, JDict det)"
      by simp_all
    from Cons.IH [OF l this]
    have ih: "right \<in> set (g_nodes st') \<and> (source, right) \<in> set (g_edges st')
      \<and> (right \<notin> set (collector_names U d) \<and> right \<notin> set (payee_names U role d) \<longrightarrow>
        map_of (node_positions st') right = Some (2, - of_nat (Suc k + j') * 2))" .
    have "right \<notin> set (collector_names U (x # d)) \<Longrightarrow> right \<notin> set (collector_names U d)"
      "right \<notin> set (payee_names U role (x # d)) \<Longrightarrow> right \<notin> set (payee_names U role d)"
      using x by (auto simp: names_Cons)
    with ih Suc show ?thesis by simp
  qed
qed

lemma fc_loop_returns:
  "well_typed_rights (map snd items) \<Longrightarrow> \<exists>st'. fc_loop U source role mid_y items st = Inr st'"
proof (induction items arbitrary: st)
  case Nil
  then show ?case by simp
next
  case (Cons item items)
  obtain i right details where item: "item = (i, right, details)"
    by (cases item) auto
  have "\<exists>st1. fc_step U source role mid_y item st = Inr st1"
  proof (cases details)
    case (JDict det)
    with Cons.prems item show ?thesis
      by (simp add: well_typed_rights_def fc_step_dict)
  qed (use item in \<open>simp_all add: fc_step_def\<close>)
  then obtain st1 where s: "fc_step U source role mid_y item st = Inr st1" by blast
  from Cons.prems have "well_typed_rights (map snd items)"
    by (simp add: well_typed_rights_def)
  from Cons.IH [OF this, of st1] s show ?case by simp
qed

lemma fc_step_colors:
  assumes "fc_step U source role mid_y (i, right, JDict det) st = Inr st'"
  shows "map_of (node_colors st') l =
     (if \<not> is_not_applicable det
          \<and> ((payee_label U role det \<noteq> [] \<and> l = payee_label U role det)
             \<or> (stripped_field U det ''collected_by'' \<noteq> [] \<and> l = stripped_field U det ''collected_by''))
        then Some source_color
      else if l = right then Some (if is_not_applicable det then ''red'' else source_color)
      else map_of (node_colors st) l)"
proof -
  have t: "text_field det ''collected_by'' \<and> text_field det ''payee''"
    using assms fc_step_dict_error by fastforce
  then have "st' = (if is_not_applicable det then place_right source right i True st
          else fc_chain right x_offset (- of_nat i * y_offset) mid_y
                 (stripped_field U det ''collected_by'') (payee_label U role det)
                 (place_right source right i False st))"
    using assms by (simp add: fc_step_dict)
  then show ?thesis
    by (simp add: fc_chain_colors)
qed

lemma fc_step_nodes_edges:
  assumes "fc_step U source role mid_y (i, right, JDict det) st = Inr st'"
  shows "set (g_nodes st') =
           set (g_nodes st) \<union> {source, right} \<union> set (collector_labels U (JDict det))
             \<union> set (payee_labels U role (JDict det))"
    and "set (g_edges st') =
           set (g_edges st) \<union> {(source, right)}
             \<union> (if is_not_applicable det then {}
                else (if stripped_field U det ''collected_by'' \<noteq> []
                      then {(right, stripped_field U det ''collected_by'')} else {})
                   \<union> (if payee_label U role det \<noteq> []
                      then {(if stripped_field U det ''collected_by'' \<noteq> []
                             then stripped_field U det ''collected_by'' else right,
                             payee_label U role det)}
                      else {}))"
proof -
  have t: "text_field det ''collected_by'' \<and> text_field det ''payee''"
    using assms fc_step_dict_error by fastforce
  then have s: "st' = (if is_not_applicable det then place_right source right i True st
          else fc_chain right x_offset (- of_nat i * y_offset) mid_y
                 (stripped_field U det ''collected_by'') (payee_label U role det)
                 (place_right source right i False st))"
    using assms by (simp add: fc_step_dict)
  show "set (g_nodes st') =
           set (g_nodes st) \<union> {source, right} \<union> set (collector_labels U (JDict det))
             \<union> set (payee_labels U role (JDict det))"
    using s by (auto simp: fc_chain_nodes)
  show "set (g_edges st') =
           set (g_edges st) \<union> {(source, right)}
             \<union> (if is_not_applicable det then {}
                else (if stripped_field U det ''collected_by'' \<noteq> []
                      then {(right, stripped_field U det ''collected_by'')} else {})
                   \<union> (if payee_label U role det \<noteq> []
                      then {(if stripped_field U det ''collected_by'' \<noteq> []
                             then stripped_field U det ''collected_by'' else right,
                             payee_label U role det)}
                      else {}))"
    using s by (auto simp: fc_chain_edges)
qed

lemma fc_loop_nodes_bound:
  "fc_loop U source role mid_y items st = Inr st' \<Longrightarrow>
   set (g_nodes st') \<subseteq>
     insert source (set (g_nodes st)) \<union> set (right_names (map snd items))
       \<union> set (collector_names U (map snd items)) \<union> set (payee_names U role (map snd items))"
proof (induction items arbitrary: st)
  case Nil
  then show ?case by auto
next
  case (Cons item items)
  obtain i right details where item: "item = (i, right, details)"
    by (cases item) auto
  from Cons.prems(1) obtain st1 where s: "fc_step U source role mid_y item st = Inr st1"
    and l: "fc_loop U source role mid_y items st1 = Inr st'"
    by (cases "fc_step U source role mid_y item st") auto
  have "set (g_nodes st1) \<subseteq> insert source (set (g_nodes st))
          \<union> set (right_names [(right, details)]) \<union> set (collector_labels U details)
          \<union> set (payee_labels U role details)"
  proof (cases details)
    case (JDict det)
    with s item fc_step_nodes_edges(1) [of U source role mid_y i right det st st1]
    show ?thesis by (auto simp: names_Cons)
  qed (use s item in \<open>auto simp: fc_step_def\<close>)
  with Cons.IH [OF l] item show ?case
    by (auto simp: names_Cons split: if_splits)
qed

lemma fc_loop_edge_sources:
  "fc_loop U source role mid_y items st = Inr st' \<Longrightarrow> (u, v) \<in> set (g_edges st') \<Longrightarrow>
   (u, v) \<in> set (g_edges st) \<or> u = source
     \<or> (\<exists>det. (u, JDict det) \<in> set (map snd items) \<and> \<not> is_not_applicable det)
     \<or> u \<in> set (collector_names U (map snd items))"
proof (induction items arbitrary: st)
  case Nil
  then show ?case by simp
next
  case (Cons item items)
  obtain i right details where item: "item = (i, right, details)"
    by (cases item) auto
  from Cons.prems(1) obtain st1 where s: "fc_step U source role mid_y item st = Inr st1"
    and l: "fc_loop U source role mid_y items st1 = Inr st'"
    by (cases "fc_step U source role mid_y item st") auto
  from Cons.IH [OF l Cons.prems(2)]
  consider "(u, v) \<in> set (g_edges st1)" | "u = source"
    | "\<exists>det. (u, JDict det) \<in> set (map snd items) \<and> \<not> is_not_applicable det"
    | "u \<in> set (collector_names U (map snd items))"
    by blast
  then show ?case
  proof cases
    case 1
    show ?thesis
    proof (cases details)
      case (JDict det)
      from s item JDict have e: "set (g_edges st1) =
           set (g_edges st) \<union> {(source, right)}
             \<union> (if is_not_applicable det then {}
                else (if stripped_field U det ''collected_by'' \<noteq> []
                      then {(right, stripped_field U det ''collected_by'')} else {})
                   \<union> (if payee_label U role det \<noteq> []
                      then {(if stripped_field U det ''collected_by'' \<noteq> []
                             then stripped_field U det ''collected_by'' else right,
                             payee_label U role det)}
                      else {}))"
        using fc_step_nodes_edges(2) by blast
      from 1 e item JDict show ?thesis
        by (auto simp: names_Cons split: if_splits)
    next
      case JNull
      with 1 s item show ?thesis by (simp add: fc_step_def)
    next
      case (JBool b)
      with 1 s item show ?thesis by (simp add: fc_step_def)
    next
      case (JNum q)
      with 1 s item show ?thesis by (simp add: fc_step_def)
    next
      case (JStr t)
      with 1 s item show ?thesis by (simp add: fc_step_def)
    next
      case (JList xs)
      with 1 s item show ?thesis by (simp add: fc_step_def)
    qed
  next
    case 2
    then show ?thesis by simp
  next
    case 3
    then show ?thesis by auto
  next
    case 4
    with item show ?thesis by (auto simp: names_Cons)
  qed
qed

lemma fc_loop_colors_frame:
  "fc_loop U source role mid_y items st = Inr st' \<Longrightarrow>
   l \<notin> set (right_names (map snd items)) \<Longrightarrow>
   l \<notin> set (collector_names U (map snd items)) \<Longrightarrow>
   l \<notin> set (payee_names U role (map snd items)) \<Longrightarrow>
   map_of (node_colors st') l = map_of (node_colors st) l"
proof (induction items arbitrary: st)
  case Nil
  then show ?case by simp
next
  case (Cons item items)
  obtain i right details where item: "item = (i, right, details)"
    by (cases item) auto
  from Cons.prems(1) obtain st1 where s: "fc_step U source role mid_y item st = Inr st1"
    and l: "fc_loop U source role mid_y items st1 = Inr st'"
    by (cases "fc_step U source role mid_y item st") auto
  have "map_of (node_colors st1) l = map_of (node_colors st) l"
  proof (cases details)
    case (JDict det)
    with s item Cons.prems(2-4) show ?thesis
      by (auto simp: fc_step_colors names_Cons split: if_splits)
  qed (use s item in \<open>simp_all add: fc_step_def\<close>)
  moreover have "map_of (node_colors st') l = map_of (node_colors st1) l"
    using Cons.IH [OF l] Cons.prems(2-4) item by (auto simp: names_Cons split: if_splits)
  ultimately show ?case by simp
qed

lemma fc_loop_source_color_kept:
  "fc_loop U source role mid_y items st = Inr st' \<Longrightarrow>
   l \<notin> fst ` set (map snd items) \<Longrightarrow>
   map_of (node_colors st) l = Some source_color \<Longrightarrow>
   map_of (node_colors st') l = Some source_color"
proof (induction items arbitrary: st)
  case Nil
  then show ?case by simp
next
  case (Cons item items)
  obtain i right details where item: "item = (i, right, details)"
    by (cases item) auto
  from Cons.prems(1) obtain st1 where s: "fc_step U source role mid_y item st = Inr st1"
    and l: "fc_loop U source role mid_y items st1 = Inr st'"
    by (cases "fc_step U source role mid_y item st") auto
  have "map_of (node_colors st1) l = Some source_color"
  proof (cases details)
    case (JDict det)
    with s item Cons.prems(2,3) show ?thesis
      by (auto simp: fc_step_colors)
  qed (use s item Cons.prems(3) in \<open>simp_all add: fc_step_def\<close>)
  moreover have "l \<notin> fst ` set (map snd items)" using Cons.prems(2) by auto
  ultimately show ?case using Cons.IH [OF l] by simp
qed

lemma fc_loop_right_color:
  "fc_loop U source role mid_y items st = Inr st' \<Longrightarrow>
   distinct (map fst (map snd items)) \<Longrightarrow> (right, JDict det) \<in> set (map snd items) \<Longrightarrow>
   (\<not> is_not_applicable det \<longrightarrow> map_of (node_colors st') right = Some source_color)
   \<and> (is_not_applicable det \<and> right \<notin> set (collector_names U (map snd items))
        \<and> right \<notin> set (payee_names U role (map snd items)) \<longrightarrow>
        map_of (node_colors st') right = Some ''red'')"
proof (induction items arbitrary: st)
  case Nil
  then show ?case by simp
next
  case (Cons item items)
  obtain i r0 v0 where item: "item = (i, r0, v0)"
    by (cases item) auto
  from Cons.prems(1) obtain st1 where s: "fc_step U source role mid_y item st = Inr st1"
    and l: "fc_loop U source role mid_y items st1 = Inr st'"
    by (cases "fc_step U source role mid_y item st") auto
  from Cons.prems(2) item have dr: "distinct (map fst (map snd items))"
    and nr0: "r0 \<notin> set (map fst (map snd items))"
    by simp_all
  from nr0 have nr: "r0 \<notin> fst ` set (map snd items)"
    unfolding set_map .
  show ?case
  proof (cases "(right, JDict det) \<in> set (map snd items)")
    case True
    from Cons.IH [OF l dr True] item show ?thesis
      by (auto simp: names_Cons)
  next
    case False
    with Cons.prems(3) item have e: "r0 = right" "v0 = JDict det" by auto
    have c1: "map_of (node_colors st1) right =
       (if \<not> is_not_applicable det
          \<and> ((payee_label U role det \<noteq> [] \<and> right = payee_label U role det)
             \<or> (stripped_field U det ''collected_by'' \<noteq> [] \<and> right = stripped_field U det ''collected_by''))
        then Some source_color
        else Some (if is_not_applicable det then ''red'' else source_color))"
      using s item e by (simp add: fc_step_colors)
    have "map_of (node_colors st') right = Some source_color" if "\<not> is_not_applicable det"
    proof -
      from c1 that have "map_of (node_colors st1) right = Some source_color" by auto
      with fc_loop_source_color_kept [OF l, of right] nr e show ?thesis by simp
    qed
    moreover have "map_of (node_colors st') right = Some ''red''"
      if "is_not_applicable det" "right \<notin> set (collector_names U (map snd (item # items)))"
        "right \<notin> set (payee_names U role (map snd (item # items)))"
    proof -
      from c1 that(1) have "map_of (node_colors st1) right = Some ''red''" by simp
      moreover have "right \<notin> set (right_names (map snd items))"
        using nr e by (auto simp: right_names_def)
      moreover have "right \<notin> set (collector_names U (map snd items))"
        "right \<notin> set (payee_names U role (map snd items))"
        using that(2,3) item by (auto simp: names_Cons)
      ultimately show ?thesis using fc_loop_colors_frame [OF l, of right] by simp
    qed
    ultimately show ?thesis by blast
  qed
qed

lemma fc_loop_chain_edges:
  "fc_loop U source role mid_y items st = Inr st' \<Longrightarrow>
   (right, JDict det) \<in> set (map snd items) \<Longrightarrow> \<not> is_not_applicable det \<Longrightarrow>
   payee_label U role det \<noteq> [] \<Longrightarrow>
   payee_label U role det \<in> set (g_nodes st')
   \<and> (if stripped_field U det ''collected_by'' \<noteq> []
       then (right, stripped_field U det ''collected_by'') \<in> set (g_edges st')
            \<and> (stripped_field U det ''collected_by'', payee_label U role det) \<in> set (g_edges st')
       else (right, payee_label U role det) \<in> set (g_edges st'))"
proof (induction items arbitrary: st)
  case Nil
  then show ?case by simp
next
  case (Cons item items)
  obtain i r0 v0 where item: "item = (i, r0, v0)"
    by (cases item) auto
  from Cons.prems(1) obtain st1 where s: "fc_step U source role mid_y item st = Inr st1"
    and l: "fc_loop U source role mid_y items st1 = Inr st'"
    by (cases "fc_step U source role mid_y item st") auto
  show ?case
  proof (cases "(right, JDict det) \<in> set (map snd items)")
    case True
    from Cons.IH [OF l True Cons.prems(3,4)] show ?thesis .
  next
    case False
    with Cons.prems(2) item have e: "r0 = right" "v0 = JDict det" by auto
    from s item e have n: "set (g_nodes st1) =
           set (g_nodes st) \<union> {source, right} \<union> set (collector_labels U (JDict det))
             \<union> set (payee_labels U role (JDict det))"
      and g: "set (g_edges st1) =
           set (g_edges st) \<union> {(source, right)}
             \<union> (if is_not_applicable det then {}
                else (if stripped_field U det ''collected_by'' \<noteq> []
                      then {(right, stripped_field U det ''collected_by'')} else {})
                   \<union> (if payee_label U role det \<noteq> []
                      then {(if stripped_field U det ''collected_by'' \<noteq> []
                             then stripped_field U det ''collected_by'' else right,
                             payee_label U role det)}
                      else {}))"
      using fc_step_nodes_edges by blast+
    have "payee_label U role det \<in> set (g_nodes st1)
   \<and> (if stripped_field U det ''collected_by'' \<noteq> []
       then (right, stripped_field U det ''collected_by'') \<in> set (g_edges st1)
            \<and> (stripped_field U det ''collected_by'', payee_label U role det) \<in> set (g_edges st1)
       else (right, payee_label U role det) \<in> set (g_edges st1))"
      using n g Cons.prems(3,4) by auto
    with fc_loop_mono [OF l] show ?thesis by (auto split: if_splits)
  qed
qed

lemma generate_flowchart_Drawn:
  assumes "generate_flowchart U source region role (JDict d) = Inr (Drawn G)"
  shows "fc_loop U source role (mid_y_of (length d)) (enumerate 0 d)
           (fc_init source (mid_y_of (length d))) = Inr G"
proof (cases "d = []")
  case True
  with assms show ?thesis by (simp add: generate_flowchart_def)
next
  case False
  with assms show ?thesis
    by (cases "fc_loop U source role (mid_y_of (length d)) (enumerate 0 d)
                 (fc_init source (mid_y_of (length d)))")
       (simp_all add: generate_flowchart_def)
qed

lemma distinct_keys_value:
  "distinct (map fst d) \<Longrightarrow> (k, v) \<in> set d \<Longrightarrow> (k, v') \<in> set d \<Longrightarrow> v = v'"
  by (metis map_of_eq_Some_iff option.inject)

lemma not_dict_not_right_name:
  "distinct (map fst d) \<Longrightarrow> (right, details) \<in> set d \<Longrightarrow> \<not> is_dict details \<Longrightarrow>
   right \<notin> set (right_names d)"
  by (auto simp: right_names_def dest: distinct_keys_value)

lemma right_color_final:
  assumes "distinct (map fst d)"
    and "generate_flowchart U source region role (JDict d) = Inr (Drawn G)"
    and "(right, JDict det) \<in> set d"
  shows "\<not> is_not_applicable det \<longrightarrow> map_of (node_colors G) right = Some source_color"
    and "is_not_applicable det \<and> right \<notin> set (collector_names U d) \<union> set (payee_names U role d) \<longrightarrow>
           map_of (node_colors G) right = Some ''red''"
proof -
  have l: "fc_loop U source role (mid_y_of (length d)) (enumerate 0 d)
           (fc_init source (mid_y_of (length d))) = Inr G"
    using assms(2) by (rule generate_flowchart_Drawn)
  have sn: "map snd (enumerate 0 d) = d" by simp
  have dk: "distinct (map fst (map snd (enumerate 0 d)))"
    using assms(1) by (simp only: sn)
  have mem: "(right, JDict det) \<in> set (map snd (enumerate 0 d))"
    using assms(3) by (simp only: sn)
  note c = fc_loop_right_color [OF l dk mem, unfolded sn]
  from c show "\<not> is_not_applicable det \<longrightarrow> map_of (node_colors G) right = Some source_color"
    by blast
  from c show "is_not_applicable det \<and> right \<notin> set (collector_names U d) \<union> set (payee_names U role d) \<longrightarrow>
           map_of (node_colors G) right = Some ''red''"
    by blast
qed

lemma not_applicable_no_edge_final:
  assumes "distinct (map fst d)"
    and "generate_flowchart U source region role (JDict d) = Inr (Drawn G)"
    and "(right, JDict det) \<in> set d"
    and "is_not_applicable det" and "right \<noteq> source" and "right \<notin> set (collector_names U d)"
  shows "(right, v) \<notin> set (g_edges G)"
proof
  assume e: "(right, v) \<in> set (g_edges G)"
  have l: "fc_loop U source role (mid_y_of (length d)) (enumerate 0 d)
           (fc_init source (mid_y_of (length d))) = Inr G"
    using assms(2) by (rule generate_flowchart_Drawn)
  from fc_loop_edge_sources [OF l e]
  have "\<exists>det'. (right, JDict det') \<in> set d \<and> \<not> is_not_applicable det'"
    using assms(5,6) by simp
  then obtain det' where d': "(right, JDict det') \<in> set d" "\<not> is_not_applicable det'" by blast
  from distinct_keys_value [OF assms(1) d'(1) assms(3)] have "det' = det" by simp
  with d'(2) assms(4) show False by simp
qed

lemma payee_chain_final:
  assumes "generate_flowchart U source region role (JDict d) = Inr (Drawn G)"
    and "(right, JDict det) \<in> set d" and "\<not> is_not_applicable det"
    and "payee_label U role det \<noteq> []"
  shows "payee_label U role det \<in> set (g_nodes G)
   \<and> (if stripped_field U det ''collected_by'' \<noteq> []
       then (right, stripped_field U det ''collected_by'') \<in> set (g_edges G)
            \<and> (stripped_field U det ''collected_by'', payee_label U role det) \<in> set (g_edges G)
       else (right, payee_label U role det) \<in> set (g_edges G))"
proof -
  have l: "fc_loop U source role (mid_y_of (length d)) (enumerate 0 d)
           (fc_init source (mid_y_of (length d))) = Inr G"
    using assms(1) by (rule generate_flowchart_Drawn)
  have sn: "map snd (enumerate 0 d) = d" by simp
  have mem: "(right, JDict det) \<in> set (map snd (enumerate 0 d))"
    using assms(2) by (simp only: sn)
  from fc_loop_chain_edges [OF l mem assms(3,4)] show ?thesis .
qed

lemma payee_step:
  assumes "text_field det ''collected_by''" and "text_field det ''payee''"
    and "\<not> is_not_applicable det" and "payee_label U role det \<noteq> []"
  shows "\<exists>st'. fc_step U source role mid_y (i, right, JDict det) st = Inr st'
         \<and> set (g_nodes st') =
             set (g_nodes st) \<union> {source, right, payee_label U role det}
               \<union> (if stripped_field U det ''collected_by'' \<noteq> []
                  then {stripped_field U det ''collected_by''} else {})
         \<and> set (g_edges st') =
             set (g_edges st) \<union> {(source, right)}
               \<union> (if stripped_field U det ''collected_by'' \<noteq> []
                  then {(right, stripped_field U det ''collected_by''),
                        (stripped_field U det ''collected_by'', payee_label U role det)}
                  else {(right, payee_label U role det)})
         \<and> map_of (node_positions st') (payee_label U role det) = Some (6, mid_y)"
proof -
  let ?c = "stripped_field U det ''collected_by''"
  let ?p = "payee_label U role det"
  let ?st' = "fc_chain right x_offset (- of_nat i * y_offset) mid_y ?c ?p
                (place_right source right i False st)"
  have s: "fc_step U source role mid_y (i, right, JDict det) st = Inr ?st'"
    using assms(1-3) by (simp add: fc_step_dict)
  have n: "set (g_nodes ?st') =
      set (g_nodes st) \<union> {source, right, ?p} \<union> (if ?c \<noteq> [] then {?c} else {})"
    using assms(4) by (auto simp: fc_chain_nodes)
  have e: "set (g_edges ?st') =
      set (g_edges st) \<union> {(source, right)}
        \<union> (if ?c \<noteq> [] then {(right, ?c), (?c, ?p)} else {(right, ?p)})"
    using assms(4) by (auto simp: fc_chain_edges)
  have q: "map_of (node_positions ?st') ?p = Some (6, mid_y)"
    using assms(4) by (simp add: fc_chain_positions x_offset_def)
  from s n e q show ?thesis by blast
qed

lemma generate_flowchart_returns:
  assumes "d \<noteq> []" and "well_typed_rights d"
  shows "\<exists>G. generate_flowchart U source region role (JDict d) = Inr (Drawn G)"
proof -
  have "map snd (enumerate 0 d) = d" by simp
  with assms(2) have "well_typed_rights (map snd (enumerate 0 d))" by simp
  from fc_loop_returns [OF this] obtain G where
    "fc_loop U source role (mid_y_of (length d)) (enumerate 0 d)
       (fc_init source (mid_y_of (length d))) = Inr G" ..
  with assms(1) have "generate_flowchart U source region role (JDict d) = Inr (Drawn G)"
    by (simp add: generate_flowchart_def bind_err_def)
  then show ?thesis ..
qed

lemma payee_label_nonempty: "role \<noteq> [] \<Longrightarrow> payee_label U role det \<noteq> []"
  by (simp add: payee_label_def)

section \<open>Properties of the diagram\<close>

text \<open>
  Claim C10. An entry of the rights mapping whose detail is not a dict is passed over:
  its iteration leaves the graph as it was and raises nothing. It still takes its place
  in the enumeration and in the count of rights: the diagram is the one obtained from the
  entries with dict details alone, each with the index it has in the whole mapping, and
  with the midpoint computed from the length of the whole mapping. In the finished graph
  the entry's name is no node, unless the same label is the source, a collector or a
  payee.
\<close>

theorem malformed_right_keeps_its_row:
  "(\<not> is_dict details \<longrightarrow> fc_step U source role mid_y (i, right, details) st = Inr st)
   \<and> (d \<noteq> [] \<longrightarrow>
        generate_flowchart U source region role (JDict d) =
          bind_err
            (fc_loop U source role (mid_y_of (length d))
               (filter (\<lambda>(i, right, details). is_dict details) (enumerate 0 d))
               (fc_init source (mid_y_of (length d))))
            (\<lambda>st. Inr (Drawn st)))
   \<and> (\<forall>item \<in> set (filter (\<lambda>(i, right, details). is_dict details) (enumerate 0 d)).
         fst item < length d \<and> d ! fst item = snd item)
   \<and> (distinct (map fst d) \<and> generate_flowchart U source region role (JDict d) = Inr (Drawn G)
        \<and> (right, details) \<in> set d \<and> \<not> is_dict details \<and> right \<noteq> source
        \<and> right \<notin> set (collector_names U d) \<union> set (payee_names U role d) \<longrightarrow>
        right \<notin> set (g_nodes G))"
proof (intro conjI impI)
  assume "\<not> is_dict details"
  then show "fc_step U source role mid_y (i, right, details) st = Inr st"
    by (rule fc_step_not_dict)
next
  assume "d \<noteq> []"
  then show "generate_flowchart U source region role (JDict d) =
          bind_err
            (fc_loop U source role (mid_y_of (length d))
               (filter (\<lambda>(i, right, details). is_dict details) (enumerate 0 d))
               (fc_init source (mid_y_of (length d))))
            (\<lambda>st. Inr (Drawn st))"
    by (simp add: fc_loop_filter generate_flowchart_def)
next
  show "\<forall>item \<in> set (filter (\<lambda>(i, right, details). is_dict details) (enumerate 0 d)).
         fst item < length d \<and> d ! fst item = snd item"
    by (auto simp: in_set_enumerate_eq)
next
  assume a: "distinct (map fst d) \<and> generate_flowchart U source region role (JDict d) = Inr (Drawn G)
        \<and> (right, details) \<in> set d \<and> \<not> is_dict details \<and> right \<noteq> source
        \<and> right \<notin> set (collector_names U d) \<union> set (payee_names U role d)"
  then have l: "fc_loop U source role (mid_y_of (length d)) (enumerate 0 d)
           (fc_init source (mid_y_of (length d))) = Inr G"
    using generate_flowchart_Drawn by blast
  from a have "right \<notin> set (right_names d)"
    using not_dict_not_right_name by blast
  with a fc_loop_nodes_bound [OF l] show "right \<notin> set (g_nodes G)"
    by auto
qed

theorem malformed_right_keeps_its_row_witness:
  "fc_step plain_tables ''spotify'' ''artist_label'' (- 2) (1, ''performance'', JStr ''tbd'')
      (fc_init ''spotify'' (- 2)) = Inr (fc_init ''spotify'' (- 2))
   \<and> mid_y_of 3 = - 2
   \<and> generate_flowchart plain_tables ''spotify'' ''us'' ''artist_label''
        (JDict [(''mechanical'', JDict [(''collected_by'', JStr ''MLC'')]),
                (''performance'', JStr ''tbd''),
                (''sync_fees'', JDict [(''payee'', JStr ''Publisher'')])]) =
      Inr (Drawn
        \<lparr>g_nodes = [''spotify'', ''mechanical'', ''MLC'', ''artist_label'', ''sync_fees'', ''Publisher''],
         g_edges = [(''spotify'', ''mechanical''), (''mechanical'', ''MLC''), (''MLC'', ''artist_label''),
                    (''spotify'', ''sync_fees''), (''sync_fees'', ''Publisher'')],
         node_colors = [(''spotify'', ''lightblue''), (''mechanical'', ''lightblue''),
                        (''MLC'', ''lightblue''), (''artist_label'', ''lightblue''),
                        (''sync_fees'', ''lightblue''), (''Publisher'', ''lightblue'')],
         node_positions = [(''spotify'', (0, - 2)), (''mechanical'', (2, 0)), (''MLC'', (4, 0)),
                           (''artist_label'', (6, - 2)), (''sync_fees'', (2, - 4)),
                           (''Publisher'', (6, - 2))]\<rparr>)
   \<and> ''performance'' \<notin> set [''spotify'', ''mechanical'', ''MLC'', ''artist_label'', ''sync_fees'',
                                ''Publisher'']"
proof -
  let ?d = "[(''mechanical'', JDict [(''collected_by'', JStr ''MLC'')]),
             (''performance'', JStr ''tbd''),
             (''sync_fees'', JDict [(''payee'', JStr ''Publisher'')])]"
  let ?G = "\<lparr>g_nodes = [''spotify'', ''mechanical'', ''MLC'', ''artist_label'', ''sync_fees'', ''Publisher''],
         g_edges = [(''spotify'', ''mechanical''), (''mechanical'', ''MLC''), (''MLC'', ''artist_label''),
                    (''spotify'', ''sync_fees''), (''sync_fees'', ''Publisher'')],
         node_colors = [(''spotify'', ''lightblue''), (''mechanical'', ''lightblue''),
                        (''MLC'', ''lightblue''), (''artist_label'', ''lightblue''),
                        (''sync_fees'', ''lightblue''), (''Publisher'', ''lightblue'')],
         node_positions = [(''spotify'', (0, - 2)), (''mechanical'', (2, 0)), (''MLC'', (4, 0)),
                           (''artist_label'', (6, - 2)), (''sync_fees'', (2, - 4)),
                           (''Publisher'', (6, - 2))]\<rparr>"
  note t = malformed_right_keeps_its_row
      [where U = plain_tables and details = "JStr ''tbd''" and source = "''spotify''" and role = "''artist_label''"
         and mid_y = "- 2" and i = 1 and right = "''performance''"
         and st = "fc_init ''spotify'' (- 2)" and d = ?d and region = "''us''" and G = ?G]
  have s: "fc_step plain_tables ''spotify'' ''artist_label'' (- 2) (1, ''performance'', JStr ''tbd'')
      (fc_init ''spotify'' (- 2)) = Inr (fc_init ''spotify'' (- 2))"
    using t [THEN conjunct1] by simp
  have m: "mid_y_of 3 = - 2" by (simp add: mid_y_of_def y_offset_def)
  have "generate_flowchart plain_tables ''spotify'' ''us'' ''artist_label'' (JDict ?d) =
          bind_err
            (fc_loop plain_tables ''spotify'' ''artist_label'' (mid_y_of (length ?d))
               (filter (\<lambda>(i, right, details). is_dict details) (enumerate 0 ?d))
               (fc_init ''spotify'' (mid_y_of (length ?d))))
            (\<lambda>st. Inr (Drawn st))"
    using t [THEN conjunct2, THEN conjunct1] by simp
  also have "\<dots> = Inr (Drawn ?G)"
    by code_simp
  finally have g: "generate_flowchart plain_tables ''spotify'' ''us'' ''artist_label'' (JDict ?d) = Inr (Drawn ?G)" .
  have cn: "collector_names plain_tables ?d = [''MLC'']"
    by (simp add: collector_names_def is_not_applicable_def stripped_field_def strip_def is_space_def)
  have pn: "payee_names plain_tables ''artist_label'' ?d = [''artist_label'', ''Publisher'']"
    by (simp add: payee_names_def is_not_applicable_def payee_label_def stripped_field_def
          strip_def is_space_def)
  have n: "''performance'' \<notin> set (g_nodes ?G)"
    using t [THEN conjunct2, THEN conjunct2, THEN conjunct2] g cn pn by simp
  from s m g n show ?thesis by simp
qed

text \<open>
  Claim C7, as amended. Take a right whose collector and payee, if given, are strings
  (line 100 strips both before the marker is read). When its details carry
  \<^verbatim>\<open>fully_not_applicable\<close>, the iteration colours the right's node red and adds only the
  node and the edge from the source: no collector, no payee. When they do not, the node
  gets the colour that the source node was given. For a rights mapping with distinct keys
  in which the collector and payee of every right, if given, are strings, the graph is
  produced, and in it a right without the marker has the source's colour; a right with
  the marker is red when no right of the mapping has the same label as its collector or
  payee node, and no edge leaves it when its label is neither the source nor a right's
  collector node. With the single right \<^verbatim>\<open>sync_fees\<close>, marked not applicable, the graph of
  a source not itself named \<^verbatim>\<open>sync_fees\<close> has the two nodes source and \<^verbatim>\<open>sync_fees\<close>, the one
  edge between them, and \<^verbatim>\<open>sync_fees\<close> in red. All of this holds whatever the Unicode
  tables are.
\<close>

theorem not_applicable_right_ends_the_chain:
  "(text_field det ''collected_by'' \<and> text_field det ''payee'' \<and> is_not_applicable det \<longrightarrow>
      (\<exists>st'. fc_step U source role mid_y (i, right, JDict det) st = Inr st'
         \<and> map_of (node_colors st') right = Some ''red''
         \<and> set (g_nodes st') = set (g_nodes st) \<union> {source, right}
         \<and> set (g_edges st') = set (g_edges st) \<union> {(source, right)}))
   \<and> (text_field det ''collected_by'' \<and> text_field det ''payee'' \<and> \<not> is_not_applicable det \<longrightarrow>
      (\<exists>st'. fc_step U source role mid_y (i, right, JDict det) st = Inr st'
         \<and> map_of (node_colors st') right = Some source_color
         \<and> map_of (node_colors (fc_init source mid_y)) source = Some source_color))
   \<and> (distinct (map fst d) \<and> well_typed_rights d \<and> (right, JDict det) \<in> set d \<longrightarrow>
        (\<exists>G. generate_flowchart U source region role (JDict d) = Inr (Drawn G)
           \<and> (is_not_applicable det
                \<and> right \<notin> set (collector_names U d) \<union> set (payee_names U role d) \<longrightarrow>
              map_of (node_colors G) right = Some ''red'')
           \<and> (is_not_applicable det \<and> right \<noteq> source \<and> right \<notin> set (collector_names U d) \<longrightarrow>
              (\<forall>v. (right, v) \<notin> set (g_edges G)))
           \<and> (\<not> is_not_applicable det \<longrightarrow> map_of (node_colors G) right = Some source_color)))
   \<and> (source \<noteq> ''sync_fees'' \<longrightarrow>
        generate_flowchart U source region role
          (JDict [(''sync_fees'', JDict [(''fully_not_applicable'', JStr ''not tracked digitally'')])]) =
        Inr (Drawn \<lparr>g_nodes = [source, ''sync_fees''],
                    g_edges = [(source, ''sync_fees'')],
                    node_colors = [(source, source_color), (''sync_fees'', ''red'')],
                    node_positions = [(source, (0, 0)), (''sync_fees'', (2, 0))]\<rparr>))"
proof -
  have c1: "text_field det ''collected_by'' \<and> text_field det ''payee'' \<and> is_not_applicable det \<longrightarrow>
      (\<exists>st'. fc_step U source role mid_y (i, right, JDict det) st = Inr st'
         \<and> map_of (node_colors st') right = Some ''red''
         \<and> set (g_nodes st') = set (g_nodes st) \<union> {source, right}
         \<and> set (g_edges st') = set (g_edges st) \<union> {(source, right)})"
    by (simp add: fc_step_dict)
  have c2: "text_field det ''collected_by'' \<and> text_field det ''payee'' \<and> \<not> is_not_applicable det \<longrightarrow>
      (\<exists>st'. fc_step U source role mid_y (i, right, JDict det) st = Inr st'
         \<and> map_of (node_colors st') right = Some source_color
         \<and> map_of (node_colors (fc_init source mid_y)) source = Some source_color)"
    by (simp add: fc_step_dict fc_chain_colors)
  have c3: "distinct (map fst d) \<and> well_typed_rights d \<and> (right, JDict det) \<in> set d \<longrightarrow>
        (\<exists>G. generate_flowchart U source region role (JDict d) = Inr (Drawn G)
           \<and> (is_not_applicable det
                \<and> right \<notin> set (collector_names U d) \<union> set (payee_names U role d) \<longrightarrow>
              map_of (node_colors G) right = Some ''red'')
           \<and> (is_not_applicable det \<and> right \<noteq> source \<and> right \<notin> set (collector_names U d) \<longrightarrow>
              (\<forall>v. (right, v) \<notin> set (g_edges G)))
           \<and> (\<not> is_not_applicable det \<longrightarrow> map_of (node_colors G) right = Some source_color))"
  proof
    assume h: "distinct (map fst d) \<and> well_typed_rights d \<and> (right, JDict det) \<in> set d"
    then have d1: "distinct (map fst d)" and wt: "well_typed_rights d"
      and m: "(right, JDict det) \<in> set d"
      by simp_all
    from m have ne: "d \<noteq> []" by auto
    from generate_flowchart_returns [OF ne wt] obtain G where
      g: "generate_flowchart U source region role (JDict d) = Inr (Drawn G)" ..
    have r1: "\<not> is_not_applicable det \<longrightarrow> map_of (node_colors G) right = Some source_color"
      by (rule right_color_final(1) [OF d1 g m])
    have r2: "is_not_applicable det
                \<and> right \<notin> set (collector_names U d) \<union> set (payee_names U role d) \<longrightarrow>
              map_of (node_colors G) right = Some ''red''"
      by (rule right_color_final(2) [OF d1 g m])
    have r3: "is_not_applicable det \<and> right \<noteq> source \<and> right \<notin> set (collector_names U d) \<longrightarrow>
              (\<forall>v. (right, v) \<notin> set (g_edges G))"
    proof (intro impI allI)
      fix v
      assume a: "is_not_applicable det \<and> right \<noteq> source \<and> right \<notin> set (collector_names U d)"
      then have a1: "is_not_applicable det" and a2: "right \<noteq> source"
        and a3: "right \<notin> set (collector_names U d)"
        by simp_all
      show "(right, v) \<notin> set (g_edges G)"
        by (rule not_applicable_no_edge_final [OF d1 g m a1 a2 a3])
    qed
    have "generate_flowchart U source region role (JDict d) = Inr (Drawn G)
           \<and> (is_not_applicable det
                \<and> right \<notin> set (collector_names U d) \<union> set (payee_names U role d) \<longrightarrow>
              map_of (node_colors G) right = Some ''red'')
           \<and> (is_not_applicable det \<and> right \<noteq> source \<and> right \<notin> set (collector_names U d) \<longrightarrow>
              (\<forall>v. (right, v) \<notin> set (g_edges G)))
           \<and> (\<not> is_not_applicable det \<longrightarrow> map_of (node_colors G) right = Some source_color)"
      by (intro conjI) (rule g, rule r2, rule r3, rule r1)
    then show "\<exists>G. generate_flowchart U source region role (JDict d) = Inr (Drawn G)
           \<and> (is_not_applicable det
                \<and> right \<notin> set (collector_names U d) \<union> set (payee_names U role d) \<longrightarrow>
              map_of (node_colors G) right = Some ''red'')
           \<and> (is_not_applicable det \<and> right \<noteq> source \<and> right \<notin> set (collector_names U d) \<longrightarrow>
              (\<forall>v. (right, v) \<notin> set (g_edges G)))
           \<and> (\<not> is_not_applicable det \<longrightarrow> map_of (node_colors G) right = Some source_color)" ..
  qed
  have c4: "source \<noteq> ''sync_fees'' \<longrightarrow>
        generate_flowchart U source region role
          (JDict [(''sync_fees'', JDict [(''fully_not_applicable'', JStr ''not tracked digitally'')])]) =
        Inr (Drawn \<lparr>g_nodes = [source, ''sync_fees''],
                    g_edges = [(source, ''sync_fees'')],
                    node_colors = [(source, source_color), (''sync_fees'', ''red'')],
                    node_positions = [(source, (0, 0)), (''sync_fees'', (2, 0))]\<rparr>)"
    using sync_fees_example by (intro impI)
  show ?thesis
    by (intro conjI) (rule c1, rule c2, rule c3, rule c4)
qed

theorem not_applicable_right_ends_the_chain_witness:
  "(\<exists>st'. fc_step plain_tables ''spotify'' ''artist_label'' 0
            (0, ''sync_fees'', JDict [(''fully_not_applicable'', JStr ''not tracked digitally'')])
            (fc_init ''spotify'' 0) = Inr st'
         \<and> map_of (node_colors st') ''sync_fees'' = Some ''red''
         \<and> set (g_nodes st') = {''spotify'', ''sync_fees''}
         \<and> set (g_edges st') = {(''spotify'', ''sync_fees'')})
   \<and> (\<exists>st'. fc_step plain_tables ''spotify'' ''artist_label'' 0
            (0, ''mechanical'', JDict [(''collected_by'', JStr ''PRO'')])
            (fc_init ''spotify'' 0) = Inr st'
         \<and> map_of (node_colors st') ''mechanical'' = Some source_color)
   \<and> generate_flowchart plain_tables ''spotify'' ''us'' ''artist_label''
          (JDict [(''sync_fees'', JDict [(''fully_not_applicable'', JStr ''not tracked digitally'')])]) =
        Inr (Drawn \<lparr>g_nodes = [''spotify'', ''sync_fees''],
                    g_edges = [(''spotify'', ''sync_fees'')],
                    node_colors = [(''spotify'', source_color), (''sync_fees'', ''red'')],
                    node_positions = [(''spotify'', (0, 0)), (''sync_fees'', (2, 0))]\<rparr>)
   \<and> (\<exists>G. generate_flowchart plain_tables ''spotify'' ''us'' ''artist_label''
          (JDict [(''sync_fees'', JDict [(''fully_not_applicable'', JStr ''not tracked digitally'')])]) =
        Inr (Drawn G)
        \<and> map_of (node_colors G) ''sync_fees'' = Some ''red''
        \<and> (\<forall>v. (''sync_fees'', v) \<notin> set (g_edges G)))"
proof -
  let ?na = "[(''fully_not_applicable'', JStr ''not tracked digitally'')]"
  let ?ap = "[(''collected_by'', JStr ''PRO'')]"
  let ?d = "[(''sync_fees'', JDict ?na)]"
  let ?G = "\<lparr>g_nodes = [''spotify'', ''sync_fees''],
             g_edges = [(''spotify'', ''sync_fees'')],
             node_colors = [(''spotify'', source_color), (''sync_fees'', ''red'')],
             node_positions = [(''spotify'', (0, 0)), (''sync_fees'', (2, 0))]\<rparr>"
  note t1 = not_applicable_right_ends_the_chain
      [where U = plain_tables and det = ?na and source = "''spotify''" and role = "''artist_label''"
         and mid_y = 0 and i = 0 and right = "''sync_fees''" and st = "fc_init ''spotify'' 0"
         and region = "''us''" and d = ?d]
  note t2 = not_applicable_right_ends_the_chain
      [where U = plain_tables and det = ?ap and source = "''spotify''" and role = "''artist_label''"
         and mid_y = 0 and i = 0 and right = "''mechanical''" and st = "fc_init ''spotify'' 0"
         and region = "''us''" and d = ?d]
  have a: "text_field ?na ''collected_by'' \<and> text_field ?na ''payee'' \<and> is_not_applicable ?na"
    by (simp add: text_field_def is_not_applicable_def)
  have b: "text_field ?ap ''collected_by'' \<and> text_field ?ap ''payee'' \<and> \<not> is_not_applicable ?ap"
    by (simp add: text_field_def is_not_applicable_def is_text_def)
  have c: "''spotify'' \<noteq> ''sync_fees''" by simp
  have w1: "\<exists>st'. fc_step plain_tables ''spotify'' ''artist_label'' 0 (0, ''sync_fees'', JDict ?na)
            (fc_init ''spotify'' 0) = Inr st'
         \<and> map_of (node_colors st') ''sync_fees'' = Some ''red''
         \<and> set (g_nodes st') = {''spotify'', ''sync_fees''}
         \<and> set (g_edges st') = {(''spotify'', ''sync_fees'')}"
    using t1 [THEN conjunct1] a by (simp add: insert_commute)
  have w2: "\<exists>st'. fc_step plain_tables ''spotify'' ''artist_label'' 0 (0, ''mechanical'', JDict ?ap)
            (fc_init ''spotify'' 0) = Inr st'
         \<and> map_of (node_colors st') ''mechanical'' = Some source_color"
    using t2 [THEN conjunct2, THEN conjunct1] b by simp
  have w4: "generate_flowchart plain_tables ''spotify'' ''us'' ''artist_label'' (JDict ?d) =
              Inr (Drawn ?G)"
    using t1 [THEN conjunct2, THEN conjunct2, THEN conjunct2] c by simp
  have cn: "collector_names plain_tables ?d = []"
    by (simp add: collector_names_def is_not_applicable_def)
  have pn: "payee_names plain_tables ''artist_label'' ?d = []"
    by (simp add: payee_names_def is_not_applicable_def)
  have h3: "distinct (map fst ?d) \<and> well_typed_rights ?d \<and> (''sync_fees'', JDict ?na) \<in> set ?d"
    by (simp add: well_typed_rights_def text_field_def)
  have w3: "\<exists>G. generate_flowchart plain_tables ''spotify'' ''us'' ''artist_label'' (JDict ?d) =
              Inr (Drawn G)
        \<and> map_of (node_colors G) ''sync_fees'' = Some ''red''
        \<and> (\<forall>v. (''sync_fees'', v) \<notin> set (g_edges G))"
    using t1 [THEN conjunct2, THEN conjunct2, THEN conjunct1, THEN mp, OF h3] a cn pn
    by simp
  show ?thesis
    by (intro conjI) (rule w1, rule w2, rule w4, rule w3)
qed

text \<open>
  The claim as stated fails in three ways. Line 100 calls \<^verbatim>\<open>strip\<close> on the collector
  before line 102 reads the marker, so a marked right whose collector is null raises and
  no graph is produced. Nodes are identified by their label: for a source itself named
  \<^verbatim>\<open>sync_fees\<close> the example has one node and a loop on it; and when another right names
  the marked right as its collector, the marked right ends in the source's colour with the
  payee edge of that other right leaving it.
\<close>

theorem not_applicable_right_counterexample:
  "generate_flowchart plain_tables ''spotify'' ''us'' ''artist_label''
     (JDict [(''sync_fees'', JDict [(''fully_not_applicable'', JStr ''not tracked digitally''),
                                    (''collected_by'', JNull)])]) = Inl AttributeError
   \<and> generate_flowchart plain_tables ''sync_fees'' ''us'' ''artist_label''
       (JDict [(''sync_fees'', JDict [(''fully_not_applicable'', JStr ''not tracked digitally'')])]) =
     Inr (Drawn \<lparr>g_nodes = [''sync_fees''],
                 g_edges = [(''sync_fees'', ''sync_fees'')],
                 node_colors = [(''sync_fees'', ''red'')],
                 node_positions = [(''sync_fees'', (2, 0))]\<rparr>)
   \<and> generate_flowchart plain_tables ''spotify'' ''us'' ''artist_label''
       (JDict [(''sync_fees'', JDict [(''fully_not_applicable'', JStr ''not tracked digitally'')]),
               (''mechanical'', JDict [(''collected_by'', JStr ''sync_fees'')])]) =
     Inr (Drawn \<lparr>g_nodes = [''spotify'', ''sync_fees'', ''mechanical'', ''artist_label''],
                 g_edges = [(''spotify'', ''sync_fees''), (''spotify'', ''mechanical''),
                            (''mechanical'', ''sync_fees''), (''sync_fees'', ''artist_label'')],
                 node_colors = [(''spotify'', ''lightblue''), (''sync_fees'', ''lightblue''),
                                (''mechanical'', ''lightblue''), (''artist_label'', ''lightblue'')],
                 node_positions = [(''spotify'', (0, - 1)), (''sync_fees'', (4, - 2)),
                                   (''mechanical'', (2, - 2)), (''artist_label'', (6, - 1))]\<rparr>)
   \<and> ''lightblue'' \<noteq> ''red''"
  by code_simp

text \<open>
  Claim C8, as amended. Take an applicable right whose collector and payee, if given, are
  strings, and a role name that is not empty. The label of the payee node is the payee
  field with surrounding white space stripped, as \<^verbatim>\<open>str.strip\<close> does, when that is not
  empty, and the role otherwise. The iteration adds the payee node in the payee column at
  the midpoint row and draws its edge from the collector when the stripped collector is
  not empty, and directly from the right otherwise. For a rights mapping in which the
  collector and payee of every right, if given, are strings, the graph is produced and has
  that node and those edges. With the single right \<^verbatim>\<open>mechanical\<close>, collector \<^verbatim>\<open>PRO\<close>, an
  empty payee and the role \<^verbatim>\<open>artist_label\<close>, the graph of a source whose name is none of
  these three labels has four nodes and the three edges from the source to \<^verbatim>\<open>mechanical\<close>
  to \<^verbatim>\<open>PRO\<close> to \<^verbatim>\<open>artist_label\<close>. All of this holds whatever the Unicode tables are.
\<close>

theorem payee_label_and_edge:
  "(text_field det ''collected_by'' \<and> text_field det ''payee'' \<and> \<not> is_not_applicable det
      \<and> role \<noteq> []
      \<and> payee = (if stripped_field U det ''payee'' = [] then role else stripped_field U det ''payee'')
      \<and> collected_by = stripped_field U det ''collected_by'' \<longrightarrow>
      (\<exists>st'. fc_step U source role mid_y (i, right, JDict det) st = Inr st'
         \<and> set (g_nodes st') =
             set (g_nodes st) \<union> {source, right, payee} \<union> (if collected_by \<noteq> [] then {collected_by} else {})
         \<and> set (g_edges st') =
             set (g_edges st) \<union> {(source, right)}
               \<union> (if collected_by \<noteq> [] then {(right, collected_by), (collected_by, payee)}
                   else {(right, payee)})
         \<and> map_of (node_positions st') payee = Some (6, mid_y)))
   \<and> (well_typed_rights d \<and> (right, JDict det) \<in> set d \<and> \<not> is_not_applicable det
      \<and> role \<noteq> []
      \<and> payee = (if stripped_field U det ''payee'' = [] then role else stripped_field U det ''payee'')
      \<and> collected_by = stripped_field U det ''collected_by'' \<longrightarrow>
      (\<exists>G. generate_flowchart U source region role (JDict d) = Inr (Drawn G)
         \<and> payee \<in> set (g_nodes G)
         \<and> (if collected_by \<noteq> []
             then (right, collected_by) \<in> set (g_edges G) \<and> (collected_by, payee) \<in> set (g_edges G)
             else (right, payee) \<in> set (g_edges G))))
   \<and> (source \<notin> {''mechanical'', ''PRO'', ''artist_label''} \<longrightarrow>
        generate_flowchart U source region ''artist_label''
          (JDict [(''mechanical'', JDict [(''collected_by'', JStr ''PRO''), (''payee'', JStr [])])]) =
        Inr (Drawn \<lparr>g_nodes = [source, ''mechanical'', ''PRO'', ''artist_label''],
                    g_edges = [(source, ''mechanical''), (''mechanical'', ''PRO''),
                               (''PRO'', ''artist_label'')],
                    node_colors = [(source, source_color), (''mechanical'', source_color),
                                   (''PRO'', source_color), (''artist_label'', source_color)],
                    node_positions = [(source, (0, 0)), (''mechanical'', (2, 0)), (''PRO'', (4, 0)),
                                      (''artist_label'', (6, 0))]\<rparr>))"
proof -
  have p: "payee_label U role det = (if stripped_field U det ''payee'' = [] then role
                                   else stripped_field U det ''payee'')"
    by (simp add: payee_label_def)
  have c1: "text_field det ''collected_by'' \<and> text_field det ''payee'' \<and> \<not> is_not_applicable det
      \<and> role \<noteq> []
      \<and> payee = (if stripped_field U det ''payee'' = [] then role else stripped_field U det ''payee'')
      \<and> collected_by = stripped_field U det ''collected_by'' \<longrightarrow>
      (\<exists>st'. fc_step U source role mid_y (i, right, JDict det) st = Inr st'
         \<and> set (g_nodes st') =
             set (g_nodes st) \<union> {source, right, payee} \<union> (if collected_by \<noteq> [] then {collected_by} else {})
         \<and> set (g_edges st') =
             set (g_edges st) \<union> {(source, right)}
               \<union> (if collected_by \<noteq> [] then {(right, collected_by), (collected_by, payee)}
                   else {(right, payee)})
         \<and> map_of (node_positions st') payee = Some (6, mid_y))"
  proof
    assume h: "text_field det ''collected_by'' \<and> text_field det ''payee'' \<and> \<not> is_not_applicable det
      \<and> role \<noteq> []
      \<and> payee = (if stripped_field U det ''payee'' = [] then role else stripped_field U det ''payee'')
      \<and> collected_by = stripped_field U det ''collected_by''"
    then have t1: "text_field det ''collected_by''" and t2: "text_field det ''payee''"
      and na: "\<not> is_not_applicable det" and r: "role \<noteq> []"
      and pe: "payee = payee_label U role det"
      and ce: "collected_by = stripped_field U det ''collected_by''"
      by (simp_all add: p)
    show "\<exists>st'. fc_step U source role mid_y (i, right, JDict det) st = Inr st'
         \<and> set (g_nodes st') =
             set (g_nodes st) \<union> {source, right, payee} \<union> (if collected_by \<noteq> [] then {collected_by} else {})
         \<and> set (g_edges st') =
             set (g_edges st) \<union> {(source, right)}
               \<union> (if collected_by \<noteq> [] then {(right, collected_by), (collected_by, payee)}
                   else {(right, payee)})
         \<and> map_of (node_positions st') payee = Some (6, mid_y)"
      unfolding pe ce by (rule payee_step [OF t1 t2 na payee_label_nonempty [OF r]])
  qed
  have c2: "well_typed_rights d \<and> (right, JDict det) \<in> set d \<and> \<not> is_not_applicable det
      \<and> role \<noteq> []
      \<and> payee = (if stripped_field U det ''payee'' = [] then role else stripped_field U det ''payee'')
      \<and> collected_by = stripped_field U det ''collected_by'' \<longrightarrow>
      (\<exists>G. generate_flowchart U source region role (JDict d) = Inr (Drawn G)
         \<and> payee \<in> set (g_nodes G)
         \<and> (if collected_by \<noteq> []
             then (right, collected_by) \<in> set (g_edges G) \<and> (collected_by, payee) \<in> set (g_edges G)
             else (right, payee) \<in> set (g_edges G)))"
  proof
    assume h: "well_typed_rights d \<and> (right, JDict det) \<in> set d \<and> \<not> is_not_applicable det
      \<and> role \<noteq> []
      \<and> payee = (if stripped_field U det ''payee'' = [] then role else stripped_field U det ''payee'')
      \<and> collected_by = stripped_field U det ''collected_by''"
    then have wt: "well_typed_rights d" and m: "(right, JDict det) \<in> set d"
      and na: "\<not> is_not_applicable det" and r: "role \<noteq> []"
      and pe: "payee = payee_label U role det"
      and ce: "collected_by = stripped_field U det ''collected_by''"
      by (simp_all add: p)
    from m have ne: "d \<noteq> []" by auto
    from generate_flowchart_returns [OF ne wt] obtain G where
      g: "generate_flowchart U source region role (JDict d) = Inr (Drawn G)" ..
    note f = payee_chain_final [OF g m na payee_label_nonempty [OF r]]
    have "generate_flowchart U source region role (JDict d) = Inr (Drawn G)
         \<and> payee \<in> set (g_nodes G)
         \<and> (if collected_by \<noteq> []
             then (right, collected_by) \<in> set (g_edges G) \<and> (collected_by, payee) \<in> set (g_edges G)
             else (right, payee) \<in> set (g_edges G))"
      unfolding pe ce
      by (intro conjI) (rule g, rule f [THEN conjunct1], rule f [THEN conjunct2])
    then show "\<exists>G. generate_flowchart U source region role (JDict d) = Inr (Drawn G)
         \<and> payee \<in> set (g_nodes G)
         \<and> (if collected_by \<noteq> []
             then (right, collected_by) \<in> set (g_edges G) \<and> (collected_by, payee) \<in> set (g_edges G)
             else (right, payee) \<in> set (g_edges G))" ..
  qed
  have c3: "source \<notin> {''mechanical'', ''PRO'', ''artist_label''} \<longrightarrow>
        generate_flowchart U source region ''artist_label''
          (JDict [(''mechanical'', JDict [(''collected_by'', JStr ''PRO''), (''payee'', JStr [])])]) =
        Inr (Drawn \<lparr>g_nodes = [source, ''mechanical'', ''PRO'', ''artist_label''],
                    g_edges = [(source, ''mechanical''), (''mechanical'', ''PRO''),
                               (''PRO'', ''artist_label'')],
                    node_colors = [(source, source_color), (''mechanical'', source_color),
                                   (''PRO'', source_color), (''artist_label'', source_color)],
                    node_positions = [(source, (0, 0)), (''mechanical'', (2, 0)), (''PRO'', (4, 0)),
                                      (''artist_label'', (6, 0))]\<rparr>)"
    using mechanical_example [where source = source and region = region and U = U] by simp
  show ?thesis
    by (intro conjI) (rule c1, rule c2, rule c3)
qed

theorem payee_label_and_edge_witness:
  "(\<exists>st'. fc_step plain_tables ''spotify'' ''artist_label'' 0
            (0, ''sync_fees'', JDict [(''payee'', JStr ''  Publisher '')])
            (fc_init ''spotify'' 0) = Inr st'
         \<and> set (g_nodes st') = {''spotify'', ''sync_fees'', ''Publisher''}
         \<and> set (g_edges st') = {(''spotify'', ''sync_fees''), (''sync_fees'', ''Publisher'')}
         \<and> map_of (node_positions st') ''Publisher'' = Some (6, 0))
   \<and> generate_flowchart plain_tables ''spotify'' ''us'' ''artist_label''
          (JDict [(''mechanical'', JDict [(''collected_by'', JStr ''PRO''), (''payee'', JStr [])])]) =
        Inr (Drawn \<lparr>g_nodes = [''spotify'', ''mechanical'', ''PRO'', ''artist_label''],
                    g_edges = [(''spotify'', ''mechanical''), (''mechanical'', ''PRO''),
                               (''PRO'', ''artist_label'')],
                    node_colors = [(''spotify'', source_color), (''mechanical'', source_color),
                                   (''PRO'', source_color), (''artist_label'', source_color)],
                    node_positions = [(''spotify'', (0, 0)), (''mechanical'', (2, 0)), (''PRO'', (4, 0)),
                                      (''artist_label'', (6, 0))]\<rparr>)
   \<and> (\<exists>G. generate_flowchart plain_tables ''spotify'' ''us'' ''artist_label''
          (JDict [(''mechanical'', JDict [(''collected_by'', JStr ''PRO''), (''payee'', JStr [])])]) =
            Inr (Drawn G)
        \<and> ''artist_label'' \<in> set (g_nodes G)
        \<and> (''mechanical'', ''PRO'') \<in> set (g_edges G)
        \<and> (''PRO'', ''artist_label'') \<in> set (g_edges G))"
proof -
  let ?pd = "[(''payee'', JStr ''  Publisher '')]"
  let ?md = "[(''collected_by'', JStr ''PRO''), (''payee'', JStr [])]"
  let ?d = "[(''mechanical'', JDict ?md)]"
  let ?G = "\<lparr>g_nodes = [''spotify'', ''mechanical'', ''PRO'', ''artist_label''],
                    g_edges = [(''spotify'', ''mechanical''), (''mechanical'', ''PRO''),
                               (''PRO'', ''artist_label'')],
                    node_colors = [(''spotify'', source_color), (''mechanical'', source_color),
                                   (''PRO'', source_color), (''artist_label'', source_color)],
                    node_positions = [(''spotify'', (0, 0)), (''mechanical'', (2, 0)), (''PRO'', (4, 0)),
                                      (''artist_label'', (6, 0))]\<rparr>"
  note t1 = payee_label_and_edge
      [where U = plain_tables and det = ?pd and payee = "''Publisher''" and collected_by = "[]"
         and source = "''spotify''" and role = "''artist_label''" and mid_y = 0 and i = 0
         and right = "''sync_fees''" and st = "fc_init ''spotify'' 0" and region = "''us''"
         and d = ?d]
  note t2 = payee_label_and_edge
      [where U = plain_tables and det = ?md and payee = "''artist_label''" and collected_by = "''PRO''"
         and source = "''spotify''" and role = "''artist_label''" and mid_y = 0 and i = 0
         and right = "''mechanical''" and st = "fc_init ''spotify'' 0" and region = "''us''"
         and d = ?d]
  have sp: "stripped_field plain_tables ?pd ''payee'' = ''Publisher''"
    by code_simp
  have sc: "stripped_field plain_tables ?pd ''collected_by'' = []"
    by (simp add: stripped_field_def)
  have a: "text_field ?pd ''collected_by'' \<and> text_field ?pd ''payee'' \<and> \<not> is_not_applicable ?pd"
    by (simp add: text_field_def is_not_applicable_def is_text_def)
  have c: "''spotify'' \<notin> {''mechanical'', ''PRO'', ''artist_label''}" by simp
  have w1: "\<exists>st'. fc_step plain_tables ''spotify'' ''artist_label'' 0 (0, ''sync_fees'', JDict ?pd)
            (fc_init ''spotify'' 0) = Inr st'
         \<and> set (g_nodes st') = {''spotify'', ''sync_fees'', ''Publisher''}
         \<and> set (g_edges st') = {(''spotify'', ''sync_fees''), (''sync_fees'', ''Publisher'')}
         \<and> map_of (node_positions st') ''Publisher'' = Some (6, 0)"
    using t1 [THEN conjunct1] a sp sc by (simp add: insert_commute)
  have w2: "generate_flowchart plain_tables ''spotify'' ''us'' ''artist_label'' (JDict ?d) =
              Inr (Drawn ?G)"
    using t1 [THEN conjunct2, THEN conjunct2] c by simp
  have mp1: "stripped_field plain_tables ?md ''payee'' = []"
    by code_simp
  have mp2: "stripped_field plain_tables ?md ''collected_by'' = ''PRO''"
    by code_simp
  have h2: "well_typed_rights ?d \<and> (''mechanical'', JDict ?md) \<in> set ?d \<and> \<not> is_not_applicable ?md
      \<and> ''artist_label'' \<noteq> []
      \<and> ''artist_label'' = (if stripped_field plain_tables ?md ''payee'' = [] then ''artist_label''
                            else stripped_field plain_tables ?md ''payee'')
      \<and> ''PRO'' = stripped_field plain_tables ?md ''collected_by''"
    unfolding mp1 mp2
    by (simp add: well_typed_rights_def text_field_def is_text_def is_not_applicable_def)
  have w3: "\<exists>G. generate_flowchart plain_tables ''spotify'' ''us'' ''artist_label'' (JDict ?d) =
            Inr (Drawn G)
        \<and> ''artist_label'' \<in> set (g_nodes G)
        \<and> (''mechanical'', ''PRO'') \<in> set (g_edges G)
        \<and> (''PRO'', ''artist_label'') \<in> set (g_edges G)"
    using t2 [THEN conjunct2, THEN conjunct1, THEN mp, OF h2] by simp
  show ?thesis
    by (intro conjI) (rule w1, rule w2, rule w3)
qed

text \<open>
  The claim as stated fails in four ways. A payee field that is not empty but blank is
  stripped by line 101, and the label falls back to the role. Line 100 calls \<^verbatim>\<open>strip\<close>
  on the collector, so an applicable right whose collector is null raises and no graph is
  produced. Nodes are identified by their label, so for a source itself named \<^verbatim>\<open>PRO\<close>
  the example has three nodes. And for an empty role name the fallback label is empty and
  line 125 adds no payee node.
\<close>

theorem payee_label_counterexample:
  "generate_flowchart plain_tables ''spotify'' ''us'' ''artist_label''
     (JDict [(''mechanical'', JDict [(''collected_by'', JStr ''PRO''), (''payee'', JStr '' '')])]) =
   Inr (Drawn \<lparr>g_nodes = [''spotify'', ''mechanical'', ''PRO'', ''artist_label''],
               g_edges = [(''spotify'', ''mechanical''), (''mechanical'', ''PRO''),
                          (''PRO'', ''artist_label'')],
               node_colors = [(''spotify'', ''lightblue''), (''mechanical'', ''lightblue''),
                              (''PRO'', ''lightblue''), (''artist_label'', ''lightblue'')],
               node_positions = [(''spotify'', (0, 0)), (''mechanical'', (2, 0)), (''PRO'', (4, 0)),
                                 (''artist_label'', (6, 0))]\<rparr>)
   \<and> '' '' \<noteq> ([] :: string)
   \<and> '' '' \<notin> set [''spotify'', ''mechanical'', ''PRO'', ''artist_label'']
   \<and> generate_flowchart plain_tables ''spotify'' ''us'' ''artist_label''
       (JDict [(''mechanical'', JDict [(''collected_by'', JNull), (''payee'', JStr ''Label'')])]) =
     Inl AttributeError
   \<and> generate_flowchart plain_tables ''PRO'' ''us'' ''artist_label''
       (JDict [(''mechanical'', JDict [(''collected_by'', JStr ''PRO''), (''payee'', JStr [])])]) =
     Inr (Drawn \<lparr>g_nodes = [''PRO'', ''mechanical'', ''artist_label''],
                 g_edges = [(''PRO'', ''mechanical''), (''mechanical'', ''PRO''),
                            (''PRO'', ''artist_label'')],
                 node_colors = [(''PRO'', ''lightblue''), (''mechanical'', ''lightblue''),
                                (''artist_label'', ''lightblue'')],
                 node_positions = [(''PRO'', (4, 0)), (''mechanical'', (2, 0)),
                                   (''artist_label'', (6, 0))]\<rparr>)
   \<and> generate_flowchart plain_tables ''spotify'' ''us'' []
       (JDict [(''mechanical'', JDict [(''collected_by'', JStr ''PRO''), (''payee'', JStr [])])]) =
     Inr (Drawn \<lparr>g_nodes = [''spotify'', ''mechanical'', ''PRO''],
                 g_edges = [(''spotify'', ''mechanical''), (''mechanical'', ''PRO'')],
                 node_colors = [(''spotify'', ''lightblue''), (''mechanical'', ''lightblue''),
                                (''PRO'', ''lightblue'')],
                 node_positions = [(''spotify'', (0, 0)), (''mechanical'', (2, 0)),
                                   (''PRO'', (4, 0))]\<rparr>)"
  by code_simp

text \<open>
  Claim C6, as amended. Let the rights mapping be non-empty, with the collector and payee
  of every right absent or a string. Then \<^verbatim>\<open>generate_flowchart\<close> builds a diagram in which,
  with the horizontal and the vertical spacing both 2 and \<open>n\<close> the number of entries: the
  source node is at \<open>(0, -((n-1) * 2)/2)\<close>; the right at index \<open>i\<close> of the mapping, when its
  detail is a dict, is a node at \<open>(2, -i * 2)\<close> with an edge from the source; and every
  payee node is at \<open>x = 6\<close> on the source's midpoint row. Each position is the final one
  provided the label is not also written for a node of another kind (the source's label
  for no right, collector or payee; the right's label for no collector or payee; the
  payee's label for no right or collector).
\<close>

theorem diagram_layout:
  assumes "d \<noteq> []" and "distinct (map fst d)" and "well_typed_rights d"
  shows "\<exists>G. generate_flowchart U source region role (JDict d) = Inr (Drawn G)
     \<and> source \<in> set (g_nodes G)
     \<and> (source \<notin> set (right_names d) \<union> set (collector_names U d) \<union> set (payee_names U role d) \<longrightarrow>
          map_of (node_positions G) source = Some (0, - ((of_nat (length d) - 1) * 2) / 2))
     \<and> (\<forall>i < length d. \<forall>right det. d ! i = (right, JDict det) \<longrightarrow>
          right \<in> set (g_nodes G) \<and> (source, right) \<in> set (g_edges G)
          \<and> (right \<notin> set (collector_names U d) \<union> set (payee_names U role d) \<longrightarrow>
               map_of (node_positions G) right = Some (2, - of_nat i * 2)))
     \<and> (\<forall>payee \<in> set (payee_names U role d).
          payee \<in> set (g_nodes G)
          \<and> (payee \<notin> set (right_names d) \<union> set (collector_names U d) \<longrightarrow>
               map_of (node_positions G) payee = Some (6, - ((of_nat (length d) - 1) * 2) / 2)))"
proof -
  let ?mid = "mid_y_of (length d)"
  let ?items = "enumerate 0 d"
  have m: "?mid = - ((of_nat (length d) - 1) * 2) / 2"
    by (simp add: mid_y_of_def y_offset_def)
  have sn: "map snd ?items = d" by simp
  from fc_loop_returns [of ?items U source role ?mid "fc_init source ?mid"] assms(3)
  obtain G where l: "fc_loop U source role ?mid ?items (fc_init source ?mid) = Inr G"
    by auto
  with assms(1) have g: "generate_flowchart U source region role (JDict d) = Inr (Drawn G)"
    by (simp add: generate_flowchart_def)
  have a: "source \<in> set (g_nodes G)"
    using fc_loop_mono [OF l] by auto
  have b: "map_of (node_positions G) source = Some (0, ?mid)"
    if "source \<notin> set (right_names d) \<union> set (collector_names U d) \<union> set (payee_names U role d)"
    using fc_loop_positions_frame [OF l, of source] that sn by simp
  have c: "right \<in> set (g_nodes G) \<and> (source, right) \<in> set (g_edges G)
          \<and> (right \<notin> set (collector_names U d) \<union> set (payee_names U role d) \<longrightarrow>
               map_of (node_positions G) right = Some (2, - of_nat i * 2))"
    if "i < length d" "d ! i = (right, JDict det)" for i right det
    using fc_loop_right_placed [OF l assms(2) that] by simp
  have e: "payee \<in> set (g_nodes G)
          \<and> (payee \<notin> set (right_names d) \<union> set (collector_names U d) \<longrightarrow>
               map_of (node_positions G) payee = Some (6, ?mid))"
    if "payee \<in> set (payee_names U role d)" for payee
    using fc_loop_payee_node [OF l, of payee] fc_loop_payee_position [OF l, of payee] that sn
    by auto
  from g a b c e show ?thesis
    unfolding m by blast
qed

theorem diagram_layout_witness:
  "\<exists>G. generate_flowchart plain_tables ''spotify'' ''us'' ''artist_label''
          (JDict [(''mechanical'', JDict [(''collected_by'', JStr ''MLC'')]),
                  (''performance'', JStr ''tbd''),
                  (''sync_fees'', JDict [(''payee'', JStr ''Publisher'')])]) = Inr (Drawn G)
     \<and> map_of (node_positions G) ''spotify'' = Some (0, - 2)
     \<and> map_of (node_positions G) ''sync_fees'' = Some (2, - 4)
     \<and> (''spotify'', ''sync_fees'') \<in> set (g_edges G)
     \<and> map_of (node_positions G) ''artist_label'' = Some (6, - 2)
     \<and> map_of (node_positions G) ''Publisher'' = Some (6, - 2)"
proof -
  let ?d = "[(''mechanical'', JDict [(''collected_by'', JStr ''MLC'')]),
             (''performance'', JStr ''tbd''),
             (''sync_fees'', JDict [(''payee'', JStr ''Publisher'')])]"
  have h1: "?d \<noteq> []" by simp
  have h2: "distinct (map fst ?d)" by simp
  have h3: "well_typed_rights ?d"
    by (simp add: well_typed_rights_def text_field_def is_text_def)
  have rn: "right_names ?d = [''mechanical'', ''sync_fees'']"
    by (simp add: right_names_def)
  have cn: "collector_names plain_tables ?d = [''MLC'']"
    by (simp add: collector_names_def is_not_applicable_def stripped_field_def strip_def is_space_def)
  have pn: "payee_names plain_tables ''artist_label'' ?d = [''artist_label'', ''Publisher'']"
    by (simp add: payee_names_def is_not_applicable_def payee_label_def stripped_field_def
          strip_def is_space_def)
  from diagram_layout [OF h1 h2 h3, of plain_tables "''spotify''" "''us''" "''artist_label''"]
  obtain G where all: "generate_flowchart plain_tables ''spotify'' ''us'' ''artist_label'' (JDict ?d) = Inr (Drawn G)
     \<and> ''spotify'' \<in> set (g_nodes G)
     \<and> (''spotify'' \<notin> set (right_names ?d) \<union> set (collector_names plain_tables ?d)
               \<union> set (payee_names plain_tables ''artist_label'' ?d) \<longrightarrow>
          map_of (node_positions G) ''spotify'' = Some (0, - ((of_nat (length ?d) - 1) * 2) / 2))
     \<and> (\<forall>i < length ?d. \<forall>right det. ?d ! i = (right, JDict det) \<longrightarrow>
          right \<in> set (g_nodes G) \<and> (''spotify'', right) \<in> set (g_edges G)
          \<and> (right \<notin> set (collector_names plain_tables ?d) \<union> set (payee_names plain_tables ''artist_label'' ?d) \<longrightarrow>
               map_of (node_positions G) right = Some (2, - of_nat i * 2)))
     \<and> (\<forall>payee \<in> set (payee_names plain_tables ''artist_label'' ?d).
          payee \<in> set (g_nodes G)
          \<and> (payee \<notin> set (right_names ?d) \<union> set (collector_names plain_tables ?d) \<longrightarrow>
               map_of (node_positions G) payee = Some (6, - ((of_nat (length ?d) - 1) * 2) / 2)))"
    ..
  note g = all [THEN conjunct1]
  note s = all [THEN conjunct2, THEN conjunct2, THEN conjunct1]
  note r = all [THEN conjunct2, THEN conjunct2, THEN conjunct2, THEN conjunct1]
  note p = all [THEN conjunct2, THEN conjunct2, THEN conjunct2, THEN conjunct2]
  from s have s': "map_of (node_positions G) ''spotify'' = Some (0, - 2)"
    by (simp add: rn cn pn)
  from r [rule_format, of 2 "''sync_fees''" "[(''payee'', JStr ''Publisher'')]"]
  have r': "(''spotify'', ''sync_fees'') \<in> set (g_edges G)"
    "map_of (node_positions G) ''sync_fees'' = Some (2, - 4)"
    by (simp_all add: cn pn)
  from p [rule_format, of "''artist_label''"] p [rule_format, of "''Publisher''"]
  have p': "map_of (node_positions G) ''artist_label'' = Some (6, - 2)"
    "map_of (node_positions G) ''Publisher'' = Some (6, - 2)"
    by (simp_all add: rn cn pn)
  from g s' r' p' show ?thesis by (intro exI [of _ G] conjI)
qed

text \<open>
  The claim as stated measures both directions with one unit. In the code the columns
  are at 2, 4 and 6 and the rows at 0, -2, -4: with two rights the second one is at
  \<open>(2, -2)\<close>, which is \<open>(2 * unit, -1 * unit)\<close> neither for the code's spacing 2 nor for 1.
\<close>

theorem diagram_layout_unit_counterexample:
  "generate_flowchart plain_tables ''spotify'' ''us'' ''artist_label''
     (JDict [(''mechanical'', JDict [(''collected_by'', JStr ''MLC'')]),
             (''sync_fees'', JDict [(''collected_by'', JStr ''Publisher'')])]) =
   Inr (Drawn
     \<lparr>g_nodes = [''spotify'', ''mechanical'', ''MLC'', ''artist_label'', ''sync_fees'', ''Publisher''],
      g_edges = [(''spotify'', ''mechanical''), (''mechanical'', ''MLC''), (''MLC'', ''artist_label''),
                 (''spotify'', ''sync_fees''), (''sync_fees'', ''Publisher''),
                 (''Publisher'', ''artist_label'')],
      node_colors = [(''spotify'', ''lightblue''), (''mechanical'', ''lightblue''),
                     (''MLC'', ''lightblue''), (''artist_label'', ''lightblue''),
                     (''sync_fees'', ''lightblue''), (''Publisher'', ''lightblue'')],
      node_positions = [(''spotify'', (0, - 1)), (''mechanical'', (2, 0)), (''MLC'', (4, 0)),
                        (''artist_label'', (6, - 1)), (''sync_fees'', (2, - 2)),
                        (''Publisher'', (4, - 2))]\<rparr>)
   \<and> (2 * x_offset, - 1 * y_offset) \<noteq> (2, - 2)
   \<and> (2 * 1, - 1 * 1) \<noteq> ((2, - 2) :: rat \<times> rat)"
  by code_simp

end
